theory Spec2Isabelle
  imports Complex_Main "HOL-Library.Monad_Syntax"
begin

section \<open>Data model\<close>

text \<open>
  The building simulator keeps two tables indexed by component: the material chosen at
  every level (\<open>buildingState\<close>) and the health of every level (\<open>componentHealth\<close>).
  JavaScript numbers are modelled as reals, so the development speaks about the
  arithmetic the code writes down and not about the rounding of IEEE doubles.

  A read that yields \<open>undefined\<close> in the source (a level that does not exist, a material
  id that the catalogue does not list, a wave number with no intensity) either throws
  a \<open>TypeError\<close> at the next property access or turns the arithmetic into \<open>NaN\<close>.
  Both are faults of the run; the model returns \<open>None\<close> at that point.
\<close>

datatype BuildingComponentId =
  Pillars | Beams | Walls | Glass | Floor | Roof
  | LightningRod | WindDampers | TsunamiBarriers | SeismicDampers

datatype DisasterId = Earthquake | Hurricane | Tsunami | LightningStorm

type_synonym MaterialTypeId = string

record Material =
  cost :: real
  resistance :: real

record Disaster =
  disaster_power :: real

type_synonym BuildingState = "BuildingComponentId \<Rightarrow> MaterialTypeId list"

type_synonym ComponentHealth = "BuildingComponentId \<Rightarrow> real list"

text \<open>
  The module \<open>constants\<close> is imported by the application but its values are not part of
  the sources at hand, so the catalogue and the three tuning constants are parameters
  of every function below. \<open>COMPONENT_CONFIG k c m\<close> stands for
  \<open>COMPONENT_CONFIG[c].materials[m]\<close>, \<open>DISASTER_CONFIG k d\<close> for \<open>DISASTER_CONFIG[d]\<close>.
\<close>

record Constants =
  COMPONENT_CONFIG :: "BuildingComponentId \<Rightarrow> MaterialTypeId \<rightharpoonup> Material"
  DISASTER_CONFIG :: "DisasterId \<Rightarrow> Disaster"
  MIN_STRUCTURAL_RESISTANCE :: real
  MAX_STRUCTURAL_RESISTANCE :: real
  MAX_STRUCTURAL_BONUS :: real

text \<open>Reading \<open>xs[i]\<close>: \<open>None\<close> stands for JavaScript's \<open>undefined\<close>.\<close>

definition level :: "'a list \<Rightarrow> nat \<Rightarrow> 'a option" where
  "level xs i = (if i < length xs then Some (xs ! i) else None)"

text \<open>\<open>COMPONENT_CONFIG[c].materials[buildingState[c][i]]\<close>, about to be dereferenced.\<close>

definition materialAt ::
  "Constants \<Rightarrow> BuildingState \<Rightarrow> BuildingComponentId \<Rightarrow> nat \<Rightarrow> Material option" where
  "materialAt k buildingState c i =
     do { materialId \<leftarrow> level (buildingState c) i; COMPONENT_CONFIG k c materialId }"

text \<open>The own keys of the two state objects, in the order of the enumeration.\<close>

definition componentKeys :: "BuildingComponentId list" where
  "componentKeys =
     [Pillars, Beams, Walls, Glass, Floor, Roof,
      LightningRod, WindDampers, TsunamiBarriers, SeismicDampers]"

section \<open>Structural bonus\<close>

text \<open>
  The memoised value \<open>structuralBonus\<close>. The two nested \<open>forEach\<close> loops add up the
  resistance of the material selected at every level of pillars, beams and floor and
  count the levels; the accumulator is the pair \<open>(totalResistance, componentCount)\<close>.
\<close>

fun sumLevels ::
  "Constants \<Rightarrow> BuildingComponentId \<Rightarrow> MaterialTypeId list \<Rightarrow> real \<times> nat \<Rightarrow> (real \<times> nat) option" where
  "sumLevels k componentId [] acc = Some acc"
| "sumLevels k componentId (materialId # rest) (totalResistance, componentCount) =
     (case COMPONENT_CONFIG k componentId materialId of
        None \<Rightarrow> None
      | Some material \<Rightarrow>
          sumLevels k componentId rest
            (totalResistance + resistance material, componentCount + 1))"

fun sumComponents ::
  "Constants \<Rightarrow> BuildingState \<Rightarrow> BuildingComponentId list \<Rightarrow> real \<times> nat \<Rightarrow> (real \<times> nat) option" where
  "sumComponents k buildingState [] acc = Some acc"
| "sumComponents k buildingState (componentId # rest) acc =
     (case sumLevels k componentId (buildingState componentId) acc of
        None \<Rightarrow> None
      | Some acc' \<Rightarrow> sumComponents k buildingState rest acc')"

definition structuralComponents :: "BuildingComponentId list" where
  "structuralComponents = [Pillars, Beams, Floor]"

definition structuralBonus :: "Constants \<Rightarrow> BuildingState \<Rightarrow> real option" where
  "structuralBonus k buildingState =
     (case sumComponents k buildingState structuralComponents (0, 0) of
        None \<Rightarrow> None
      | Some (totalResistance, componentCount) \<Rightarrow>
          if componentCount = 0 then Some 0
          else
            let avgResistance = totalResistance / real componentCount in
            if avgResistance \<le> MIN_STRUCTURAL_RESISTANCE k then Some 0
            else if avgResistance \<ge> MAX_STRUCTURAL_RESISTANCE k then Some (MAX_STRUCTURAL_BONUS k)
            else Some ((avgResistance - MIN_STRUCTURAL_RESISTANCE k)
                        / (MAX_STRUCTURAL_RESISTANCE k - MIN_STRUCTURAL_RESISTANCE k)
                        * MAX_STRUCTURAL_BONUS k))"

subsection \<open>The reference definition of the bonus\<close>

text \<open>
  The specification describes the bonus without loops: the resistances of the selected
  materials over every level of the three components, their number, their average, and
  a piecewise function of the average. These definitions follow those words and are
  compared with \<open>structuralBonus\<close> below.
\<close>

definition selectionsCatalogued ::
  "Constants \<Rightarrow> BuildingState \<Rightarrow> BuildingComponentId list \<Rightarrow> bool" where
  "selectionsCatalogued k buildingState cs =
     (\<forall>c \<in> set cs. \<forall>m \<in> set (buildingState c). COMPONENT_CONFIG k c m \<noteq> None)"

definition resistanceOf :: "Constants \<Rightarrow> BuildingComponentId \<Rightarrow> MaterialTypeId \<Rightarrow> real" where
  "resistanceOf k c m =
     (case COMPONENT_CONFIG k c m of Some material \<Rightarrow> resistance material | None \<Rightarrow> 0)"

definition scannedResistances ::
  "Constants \<Rightarrow> BuildingState \<Rightarrow> BuildingComponentId list \<Rightarrow> real list" where
  "scannedResistances k buildingState cs =
     concat (map (\<lambda>c. map (resistanceOf k c) (buildingState c)) cs)"

definition levelCount :: "Constants \<Rightarrow> BuildingState \<Rightarrow> nat" where
  "levelCount k buildingState =
     length (scannedResistances k buildingState [Pillars, Beams, Floor])"

definition averageResistance :: "Constants \<Rightarrow> BuildingState \<Rightarrow> real" where
  "averageResistance k buildingState =
     sum_list (scannedResistances k buildingState [Pillars, Beams, Floor])
       / real (levelCount k buildingState)"

definition computeStructuralBonus :: "Constants \<Rightarrow> BuildingState \<Rightarrow> real" where
  "computeStructuralBonus k buildingState =
     (if levelCount k buildingState = 0
         \<or> averageResistance k buildingState \<le> MIN_STRUCTURAL_RESISTANCE k then 0
      else if averageResistance k buildingState \<ge> MAX_STRUCTURAL_RESISTANCE k
        then MAX_STRUCTURAL_BONUS k
      else (averageResistance k buildingState - MIN_STRUCTURAL_RESISTANCE k)
             / (MAX_STRUCTURAL_RESISTANCE k - MIN_STRUCTURAL_RESISTANCE k)
             * MAX_STRUCTURAL_BONUS k)"

section \<open>One disaster wave\<close>

text \<open>
  \<open>runSimulationWave\<close> works on \<open>newHealth\<close>, a deep copy of \<open>componentHealth\<close>, and
  publishes it at the end. Every update has the shape
  \<open>newHealth[c][index] = Math.max(0, newHealth[c][index] - damage)\<close>.
\<close>

definition applyDamage ::
  "ComponentHealth \<Rightarrow> BuildingComponentId \<Rightarrow> nat \<Rightarrow> real \<Rightarrow> ComponentHealth option" where
  "applyDamage newHealth c index damage =
     (case level (newHealth c) index of
        None \<Rightarrow> None
      | Some currentHealth \<Rightarrow>
          Some (newHealth(c := (newHealth c)[index := max 0 (currentHealth - damage)])))"

definition waveIntensities :: "real list" where
  "waveIntensities = [0.6, 0.8, 1.0]"

definition intensityMultiplier :: "nat \<Rightarrow> real option" where
  "intensityMultiplier waveNumber =
     (if waveNumber < 1 then None else level waveIntensities (waveNumber - 1))"

definition defenseComponents :: "BuildingComponentId list" where
  "defenseComponents = [LightningRod, WindDampers, TsunamiBarriers, SeismicDampers]"

subsection \<open>Lightning storm\<close>

text \<open>
  The loop \<open>for (let i = 0; i < 3; i++)\<close> over the three topmost floors, as a recursion
  over the offsets still to visit. \<open>floorIndex\<close> is an integer that may be negative, in
  which case the loop breaks.
\<close>

fun lightningFloors ::
  "real \<Rightarrow> real \<Rightarrow> nat list \<Rightarrow> ComponentHealth \<Rightarrow> ComponentHealth option" where
  "lightningFloors effectivePower bonus [] newHealth = Some newHealth"
| "lightningFloors effectivePower bonus (i # rest) newHealth =
     (let floorIndex = int (length (newHealth Beams)) - 1 - int i in
      if floorIndex < 0 then Some newHealth
      else
        let damageMultiplier = 1 / (real i * 1.5 + 1);
            baseDamage = effectivePower * damageMultiplier;
            finalDamage = baseDamage * (1 - bonus)
        in do {
          h1 \<leftarrow> applyDamage newHealth Beams (nat floorIndex) (finalDamage / 1.25);
          h2 \<leftarrow> applyDamage h1 Walls (nat floorIndex) (finalDamage / 1.5);
          h3 \<leftarrow> applyDamage h2 Glass (nat floorIndex) (finalDamage / 2);
          h4 \<leftarrow> applyDamage h3 Pillars (nat floorIndex) (finalDamage / 1.2);
          h5 \<leftarrow> applyDamage h4 Floor (nat floorIndex) (finalDamage / 1.8);
          lightningFloors effectivePower bonus rest h5
        })"

definition lightningWave ::
  "Constants \<Rightarrow> BuildingState \<Rightarrow> real \<Rightarrow> real \<Rightarrow> ComponentHealth \<Rightarrow> ComponentHealth option" where
  "lightningWave k buildingState bonus disasterPower newHealth =
     do {
       spda \<leftarrow> materialAt k buildingState LightningRod 0;
       let spdaResistance = resistance spda;
       let effectivePower = max 0 (disasterPower - spdaResistance);
       if spdaResistance < disasterPower then
         do {
           h1 \<leftarrow> applyDamage newHealth LightningRod 0 ((disasterPower - spdaResistance) * 2);
           h2 \<leftarrow> applyDamage h1 Roof 0 (effectivePower * 1.2 * (1 - bonus));
           lightningFloors effectivePower bonus [0, 1, 2] h2
         }
       else Some newHealth
     }"

subsection \<open>Earthquake, hurricane and tsunami\<close>

text \<open>The \<open>switch\<close> that picks the defence whose resistance is read at level 0.\<close>

definition defenseResistance ::
  "Constants \<Rightarrow> BuildingState \<Rightarrow> DisasterId \<Rightarrow> real option" where
  "defenseResistance k buildingState disasterId =
     (case disasterId of
        Hurricane \<Rightarrow> map_option resistance (materialAt k buildingState WindDampers 0)
      | Tsunami \<Rightarrow> map_option resistance (materialAt k buildingState TsunamiBarriers 0)
      | Earthquake \<Rightarrow> map_option resistance (materialAt k buildingState SeismicDampers 0)
      | LightningStorm \<Rightarrow> Some 0)"

text \<open>
  The damage of one level: the body of the inner \<open>forEach\<close> callback up to the last
  assignment to \<open>damage\<close>. \<open>len\<close> is \<open>buildingState[componentId].length\<close>.
\<close>

definition levelDamage :: "DisasterId \<Rightarrow> real \<Rightarrow> real \<Rightarrow> nat \<Rightarrow> real \<Rightarrow> nat \<Rightarrow> real" where
  "levelDamage disasterId effectivePower bonus len materialResistance index =
     (let damage = max 0 (effectivePower - materialResistance);
          damage = (if disasterId = Tsunami
                    then damage * max 0 (1.5 - real index / real len) else damage);
          damage = (if disasterId = Earthquake
                    then damage * (1.2 - real index / (real len * 2)) else damage)
      in damage * (1 - bonus))"

text \<open>
  \<open>buildingState[componentId].forEach((materialId, index) => ...)\<close>: the recursion runs
  over the materials still to visit, \<open>index\<close> counting up.
\<close>

fun forEachLevel ::
  "Constants \<Rightarrow> BuildingState \<Rightarrow> DisasterId \<Rightarrow> real \<Rightarrow> real \<Rightarrow> BuildingComponentId
     \<Rightarrow> MaterialTypeId list \<Rightarrow> nat \<Rightarrow> ComponentHealth \<Rightarrow> ComponentHealth option" where
  "forEachLevel k buildingState disasterId effectivePower bonus componentId [] index newHealth =
     Some newHealth"
| "forEachLevel k buildingState disasterId effectivePower bonus componentId
     (materialId # rest) index newHealth =
     do {
       material \<leftarrow> COMPONENT_CONFIG k componentId materialId;
       let damage = levelDamage disasterId effectivePower bonus
                      (length (buildingState componentId)) (resistance material) index;
       h \<leftarrow> applyDamage newHealth componentId index damage;
       forEachLevel k buildingState disasterId effectivePower bonus componentId
         rest (Suc index) h
     }"

text \<open>\<open>for (const key in buildingState)\<close>, skipping the defence systems.\<close>

fun forEachComponent ::
  "Constants \<Rightarrow> BuildingState \<Rightarrow> DisasterId \<Rightarrow> real \<Rightarrow> real
     \<Rightarrow> BuildingComponentId list \<Rightarrow> ComponentHealth \<Rightarrow> ComponentHealth option" where
  "forEachComponent k buildingState disasterId effectivePower bonus [] newHealth =
     Some newHealth"
| "forEachComponent k buildingState disasterId effectivePower bonus (componentId # rest) newHealth =
     (if componentId \<in> set defenseComponents
      then forEachComponent k buildingState disasterId effectivePower bonus rest newHealth
      else do {
        h \<leftarrow> forEachLevel k buildingState disasterId effectivePower bonus componentId
               (buildingState componentId) 0 newHealth;
        forEachComponent k buildingState disasterId effectivePower bonus rest h
      })"

definition uniformWave ::
  "Constants \<Rightarrow> BuildingState \<Rightarrow> real \<Rightarrow> DisasterId \<Rightarrow> real \<Rightarrow> ComponentHealth
     \<Rightarrow> ComponentHealth option" where
  "uniformWave k buildingState bonus disasterId disasterPower newHealth =
     do {
       defence \<leftarrow> defenseResistance k buildingState disasterId;
       let effectivePower = max 0 (disasterPower - defence);
       forEachComponent k buildingState disasterId effectivePower bonus componentKeys newHealth
     }"

subsection \<open>The health after the wave\<close>

text \<open>
  The part of \<open>runSimulationWave\<close> that ends with \<open>setComponentHealth(newHealth)\<close>. The
  arguments after the constants are the values captured by the callback
  (\<open>buildingState\<close>, \<open>componentHealth\<close>, \<open>structuralBonus\<close>) and its two parameters.
\<close>

definition waveHealth ::
  "Constants \<Rightarrow> BuildingState \<Rightarrow> ComponentHealth \<Rightarrow> real \<Rightarrow> DisasterId \<Rightarrow> nat
     \<Rightarrow> ComponentHealth option" where
  "waveHealth k buildingState componentHealth bonus disasterId waveNumber =
     do {
       multiplier \<leftarrow> intensityMultiplier waveNumber;
       let disasterPower = disaster_power (DISASTER_CONFIG k disasterId) * multiplier;
       if disasterId = LightningStorm
       then lightningWave k buildingState bonus disasterPower componentHealth
       else uniformWave k buildingState bonus disasterId disasterPower componentHealth
     }"

subsection \<open>Phase and result message\<close>

datatype SimulationPhase = idle | wave nat | repair nat | results

text \<open>
  The four result messages differ in their wording only, so each is represented by its
  tier; the percentage that the source formats into the text is presentation.
\<close>

datatype ResultMessage =
  MinimalDamage | SignificantDamage | SeverelyCompromised | TotalCollapse

record SimulationState =
  phase :: SimulationPhase
  activeDisaster :: "DisasterId option"
  resultMessage :: "ResultMessage option"

definition allHealthValues :: "ComponentHealth \<Rightarrow> real list" where
  "allHealthValues newHealth = concat (map newHealth componentKeys)"

text \<open>
  With no health value at all the average is \<open>0 / 0\<close>, a \<open>NaN\<close> that fails every
  comparison, which leaves the last message.
\<close>

definition classify :: "ComponentHealth \<Rightarrow> ResultMessage" where
  "classify newHealth =
     (if allHealthValues newHealth = [] then TotalCollapse
      else
        let averageHealth = foldl (+) 0 (allHealthValues newHealth)
                              / real (length (allHealthValues newHealth))
        in if averageHealth > 75 then MinimalDamage
           else if averageHealth > 50 then SignificantDamage
           else if averageHealth > 20 then SeverelyCompromised
           else TotalCollapse)"

definition runSimulationWave ::
  "Constants \<Rightarrow> BuildingState \<Rightarrow> ComponentHealth \<Rightarrow> real \<Rightarrow> SimulationState
     \<Rightarrow> DisasterId \<Rightarrow> nat \<Rightarrow> (ComponentHealth \<times> SimulationState) option" where
  "runSimulationWave k buildingState componentHealth bonus prevState disasterId waveNumber =
     do {
       newHealth \<leftarrow> waveHealth k buildingState componentHealth bonus disasterId waveNumber;
       if waveNumber < 3
       then Some (newHealth, prevState\<lparr>phase := repair waveNumber\<rparr>)
       else Some (newHealth,
                  prevState\<lparr>phase := results, resultMessage := Some (classify newHealth)\<rparr>)
     }"

section \<open>Repair\<close>

text \<open>
  \<open>handleRepairComponent\<close> on the pair of the health table and the total cost. The
  material is looked up first but dereferenced only after the test on the current
  health, so a level at full health returns before a missing material can throw.
\<close>

definition handleRepairComponent ::
  "Constants \<Rightarrow> BuildingState \<Rightarrow> ComponentHealth \<times> real \<Rightarrow> BuildingComponentId \<Rightarrow> nat
     \<Rightarrow> (ComponentHealth \<times> real) option" where
  "handleRepairComponent k buildingState st componentId levelIndex =
     (case st of (componentHealth, totalCost) \<Rightarrow>
        (case level (componentHealth componentId) levelIndex of
           None \<Rightarrow> None
         | Some currentHealth \<Rightarrow>
             if currentHealth \<ge> 100 then Some (componentHealth, totalCost)
             else
               (case materialAt k buildingState componentId levelIndex of
                  None \<Rightarrow> None
                | Some material \<Rightarrow>
                    let healthToRestore = 100 - currentHealth;
                        costPerPoint = cost material / 200;
                        repairCost = healthToRestore * costPerPoint
                    in Some (componentHealth
                               (componentId := (componentHealth componentId)[levelIndex := 100]),
                             totalCost + repairCost))))"

text \<open>The price quoted by the control panel for a damaged level (\<open>health < 100\<close>).\<close>

definition quotedRepairCost :: "Material \<Rightarrow> real \<Rightarrow> real" where
  "quotedRepairCost material health =
     (let costPerPoint = cost material / 200 in (100 - health) * costPerPoint)"

section \<open>Vocabulary of the statements\<close>

text \<open>
  \<open>noHealing h0 h\<close>: the table \<open>h\<close> has the shape of \<open>h0\<close>, and each of its values is
  non-negative and at most the value of \<open>h0\<close> at the same place. It is the invariant
  of every loop of a wave.
\<close>

definition noHealing :: "ComponentHealth \<Rightarrow> ComponentHealth \<Rightarrow> bool" where
  "noHealing h0 h =
     (\<forall>c. length (h c) = length (h0 c)
          \<and> (\<forall>i < length (h0 c). 0 \<le> h c ! i \<and> h c ! i \<le> h0 c ! i))"

text \<open>The intensity of waves 1, 2 and 3 as the specification lists it.\<close>

definition waveMultiplier :: "nat \<Rightarrow> real" where
  "waveMultiplier waveNumber =
     (if waveNumber = 1 then 0.6 else if waveNumber = 2 then 0.8 else 1.0)"

text \<open>The defence system that stands against each disaster.\<close>

definition matchingDefense :: "DisasterId \<Rightarrow> BuildingComponentId" where
  "matchingDefense disasterId =
     (case disasterId of
        Earthquake \<Rightarrow> SeismicDampers
      | Hurricane \<Rightarrow> WindDampers
      | Tsunami \<Rightarrow> TsunamiBarriers
      | LightningStorm \<Rightarrow> LightningRod)"

text \<open>The factor by which the position of a level scales its damage.\<close>

definition positionalModifier :: "DisasterId \<Rightarrow> nat \<Rightarrow> nat \<Rightarrow> real" where
  "positionalModifier disasterId index len =
     (case disasterId of
        Tsunami \<Rightarrow> max 0 (1.5 - real index / real len)
      | Earthquake \<Rightarrow> 1.2 - real index / (real len * 2)
      | Hurricane \<Rightarrow> 1
      | LightningStorm \<Rightarrow> 1)"

text \<open>
  Inputs on which an earthquake, hurricane or tsunami wave reads no \<open>undefined\<close>: every
  component that is not a defence has a health value for each of its levels, and the
  material selected at each level is in the catalogue.
\<close>

definition uniformShape :: "Constants \<Rightarrow> BuildingState \<Rightarrow> ComponentHealth \<Rightarrow> bool" where
  "uniformShape k buildingState componentHealth =
     (\<forall>c \<in> set componentKeys. c \<notin> set defenseComponents \<longrightarrow>
        length (buildingState c) \<le> length (componentHealth c)
        \<and> (\<forall>m \<in> set (buildingState c). COMPONENT_CONFIG k c m \<noteq> None))"

text \<open>
  Health tables on which a lightning wave reads no \<open>undefined\<close>: rod and roof have their
  single level, and the floors counted on the beams exist for the other per-floor
  components.
\<close>

definition lightningShape :: "ComponentHealth \<Rightarrow> bool" where
  "lightningShape componentHealth =
     (componentHealth LightningRod \<noteq> [] \<and> componentHealth Roof \<noteq> []
      \<and> (\<forall>c \<in> set [Walls, Glass, Pillars, Floor].
            length (componentHealth Beams) \<le> length (componentHealth c)))"

text \<open>Every health value lies between 0 and 100.\<close>

definition healthInRange :: "ComponentHealth \<Rightarrow> bool" where
  "healthInRange componentHealth =
     (\<forall>c \<in> set componentKeys. \<forall>v \<in> set (componentHealth c). 0 \<le> v \<and> v \<le> 100)"

section \<open>An example catalogue\<close>

text \<open>
  A small catalogue, a two-storey building and its initial health, used to run the
  definitions on concrete inputs.
\<close>

definition exampleMaterials :: "BuildingComponentId \<Rightarrow> MaterialTypeId \<rightharpoonup> Material" where
  "exampleMaterials c m =
     (if m = ''weak'' then Some \<lparr>cost = 100, resistance = 10\<rparr>
      else if m = ''medium'' then Some \<lparr>cost = 200, resistance = 20\<rparr>
      else if m = ''strong'' then Some \<lparr>cost = 400, resistance = 60\<rparr>
      else None)"

definition exampleConstants :: Constants where
  "exampleConstants =
     \<lparr>COMPONENT_CONFIG = exampleMaterials,
      DISASTER_CONFIG =
        (\<lambda>d. \<lparr>disaster_power = (if d = LightningStorm then 50 else 100)\<rparr>),
      MIN_STRUCTURAL_RESISTANCE = 10,
      MAX_STRUCTURAL_RESISTANCE = 50,
      MAX_STRUCTURAL_BONUS = 0.4\<rparr>"

definition isPerFloor :: "BuildingComponentId \<Rightarrow> bool" where
  "isPerFloor c = (c \<in> set [Pillars, Beams, Walls, Glass, Floor])"

definition exampleBuilding :: BuildingState where
  "exampleBuilding c = (if isPerFloor c then [''weak'', ''medium''] else [''medium''])"

definition strongBuilding :: BuildingState where
  "strongBuilding c = (if isPerFloor c then [''strong'', ''medium''] else [''strong''])"

definition fullHealth :: "real \<Rightarrow> ComponentHealth" where
  "fullHealth v c = (if isPerFloor c then [v, v] else [v])"

text \<open>
  Two health tables of a building that has already suffered, different from component
  to component and from level to level.
\<close>

definition wornHealthA :: ComponentHealth where
  "wornHealthA c =
     (case c of
        Pillars \<Rightarrow> [40, 60] | Beams \<Rightarrow> [100, 100] | Walls \<Rightarrow> [100, 100]
      | Glass \<Rightarrow> [70, 90] | Floor \<Rightarrow> [100, 100] | Roof \<Rightarrow> [85]
      | LightningRod \<Rightarrow> [70] | WindDampers \<Rightarrow> [70]
      | TsunamiBarriers \<Rightarrow> [70] | SeismicDampers \<Rightarrow> [70])"

definition wornHealthB :: ComponentHealth where
  "wornHealthB c =
     (case c of
        Pillars \<Rightarrow> [100, 100] | Beams \<Rightarrow> [20, 40] | Walls \<Rightarrow> [50, 70]
      | Glass \<Rightarrow> [30, 50] | Floor \<Rightarrow> [60, 80] | Roof \<Rightarrow> [50]
      | LightningRod \<Rightarrow> [50] | WindDampers \<Rightarrow> [50]
      | TsunamiBarriers \<Rightarrow> [50] | SeismicDampers \<Rightarrow> [50])"

section \<open>Properties of the structural bonus\<close>

lemma sumLevels_Some:
  "sumLevels k c ms acc = Some acc' \<Longrightarrow>
     acc' = (fst acc + sum_list (map (resistanceOf k c) ms), snd acc + length ms)"
proof (induction ms arbitrary: acc)
  case Nil
  then show ?case by simp
next
  case (Cons m ms)
  obtain t n where acc: "acc = (t, n)" by (cases acc)
  from Cons.prems acc obtain material where
    look: "COMPONENT_CONFIG k c m = Some material" and
    rest: "sumLevels k c ms (t + resistance material, n + 1) = Some acc'"
    by (auto split: option.splits)
  from Cons.IH [OF rest] look acc show ?case
    by (simp add: resistanceOf_def)
qed

lemma sumLevels_catalogued:
  "\<forall>m \<in> set ms. COMPONENT_CONFIG k c m \<noteq> None \<Longrightarrow> \<exists>acc'. sumLevels k c ms acc = Some acc'"
proof (induction ms arbitrary: acc)
  case Nil
  then show ?case by simp
next
  case (Cons m ms)
  obtain t n where acc: "acc = (t, n)" by (cases acc)
  from Cons.prems obtain material where look: "COMPONENT_CONFIG k c m = Some material"
    by auto
  from Cons.prems have "\<forall>m \<in> set ms. COMPONENT_CONFIG k c m \<noteq> None" by simp
  from Cons.IH [OF this] acc look show ?case by simp
qed

lemma sumComponents_Some:
  "sumComponents k b cs acc = Some acc' \<Longrightarrow>
     acc' = (fst acc + sum_list (scannedResistances k b cs),
             snd acc + length (scannedResistances k b cs))"
proof (induction cs arbitrary: acc)
  case Nil
  then show ?case by (simp add: scannedResistances_def)
next
  case (Cons c cs)
  from Cons.prems obtain mid where
    one: "sumLevels k c (b c) acc = Some mid" and
    rest: "sumComponents k b cs mid = Some acc'"
    by (auto split: option.splits)
  from sumLevels_Some [OF one] Cons.IH [OF rest] show ?case
    by (simp add: scannedResistances_def)
qed

lemma sumComponents_catalogued:
  "selectionsCatalogued k b cs \<Longrightarrow> \<exists>acc'. sumComponents k b cs acc = Some acc'"
proof (induction cs arbitrary: acc)
  case Nil
  then show ?case by simp
next
  case (Cons c cs)
  from Cons.prems have "\<forall>m \<in> set (b c). COMPONENT_CONFIG k c m \<noteq> None"
    by (simp add: selectionsCatalogued_def)
  from sumLevels_catalogued [OF this] obtain mid where
    one: "sumLevels k c (b c) acc = Some mid" by blast
  from Cons.prems have "selectionsCatalogued k b cs"
    by (simp add: selectionsCatalogued_def)
  from Cons.IH [OF this] one show ?case by simp
qed

lemma structuralBonus_Some:
  assumes "structuralBonus k b = Some r"
  shows "r = computeStructuralBonus k b"
proof -
  from assms obtain t n where
    run: "sumComponents k b structuralComponents (0, 0) = Some (t, n)"
    by (auto simp: structuralBonus_def split: option.splits)
  from sumComponents_Some [OF run] have
    t: "t = sum_list (scannedResistances k b [Pillars, Beams, Floor])" and
    n: "n = levelCount k b"
    by (simp_all add: structuralComponents_def levelCount_def)
  from t n have avg: "t / real n = averageResistance k b"
    by (simp add: averageResistance_def)
  from assms run have
    "r = (if n = 0 then 0
          else if t / real n \<le> MIN_STRUCTURAL_RESISTANCE k then 0
          else if t / real n \<ge> MAX_STRUCTURAL_RESISTANCE k then MAX_STRUCTURAL_BONUS k
          else (t / real n - MIN_STRUCTURAL_RESISTANCE k)
                 / (MAX_STRUCTURAL_RESISTANCE k - MIN_STRUCTURAL_RESISTANCE k)
                 * MAX_STRUCTURAL_BONUS k)"
    by (auto simp: structuralBonus_def Let_def split: if_splits)
  with avg n show ?thesis
    by (simp add: computeStructuralBonus_def)
qed

lemma structuralBonus_total:
  assumes "selectionsCatalogued k b structuralComponents"
  shows "\<exists>r. structuralBonus k b = Some r"
proof -
  from sumComponents_catalogued [OF assms] obtain acc' where
    "sumComponents k b structuralComponents (0, 0) = Some acc'" by blast
  then show ?thesis
    by (cases acc') (simp add: structuralBonus_def Let_def)
qed

lemma computeStructuralBonus_range:
  assumes "0 \<le> MAX_STRUCTURAL_BONUS k"
  shows "0 \<le> computeStructuralBonus k b \<and> computeStructuralBonus k b \<le> MAX_STRUCTURAL_BONUS k"
proof -
  let ?a = "averageResistance k b"
  let ?lo = "MIN_STRUCTURAL_RESISTANCE k"
  let ?hi = "MAX_STRUCTURAL_RESISTANCE k"
  let ?B = "MAX_STRUCTURAL_BONUS k"
  have mid: "0 \<le> (?a - ?lo) / (?hi - ?lo) * ?B \<and> (?a - ?lo) / (?hi - ?lo) * ?B \<le> ?B"
    if lo: "?lo < ?a" and hi: "?a < ?hi"
  proof -
    from lo hi have pos: "0 < ?hi - ?lo" by simp
    from lo pos have f0: "0 \<le> (?a - ?lo) / (?hi - ?lo)" by simp
    from hi pos have f1: "(?a - ?lo) / (?hi - ?lo) \<le> 1" by simp
    from f0 assms have "0 \<le> (?a - ?lo) / (?hi - ?lo) * ?B" by (rule mult_nonneg_nonneg)
    moreover from f1 assms have "(?a - ?lo) / (?hi - ?lo) * ?B \<le> 1 * ?B"
      by (rule mult_right_mono)
    ultimately show ?thesis by simp
  qed
  show ?thesis
    using assms mid by (auto simp: computeStructuralBonus_def not_le)
qed

lemma computeStructuralBonus_mono:
  assumes B: "0 \<le> MAX_STRUCTURAL_BONUS k"
    and n1: "levelCount k b1 \<noteq> 0" and n2: "levelCount k b2 \<noteq> 0"
    and le: "averageResistance k b1 \<le> averageResistance k b2"
  shows "computeStructuralBonus k b1 \<le> computeStructuralBonus k b2"
proof -
  let ?a1 = "averageResistance k b1"
  let ?a2 = "averageResistance k b2"
  let ?lo = "MIN_STRUCTURAL_RESISTANCE k"
  let ?hi = "MAX_STRUCTURAL_RESISTANCE k"
  let ?B = "MAX_STRUCTURAL_BONUS k"
  from computeStructuralBonus_range [OF B] have
    r1: "computeStructuralBonus k b1 \<le> ?B" and r2: "0 \<le> computeStructuralBonus k b2"
    by blast+
  consider "?a1 \<le> ?lo" | "?hi \<le> ?a2" "?lo < ?a2" | "?lo < ?a1" "?a2 < ?hi"
    using le by linarith
  then show ?thesis
  proof cases
    case 1
    with r2 show ?thesis by (simp add: computeStructuralBonus_def)
  next
    case 2
    with n2 r1 show ?thesis by (simp add: computeStructuralBonus_def not_le)
  next
    case 3
    with le have pos: "0 < ?hi - ?lo" and a2: "?lo < ?a2" and a1: "?a1 < ?hi" by simp_all
    from le pos have "(?a1 - ?lo) / (?hi - ?lo) \<le> (?a2 - ?lo) / (?hi - ?lo)"
      by (simp add: divide_right_mono)
    then have "(?a1 - ?lo) / (?hi - ?lo) * ?B \<le> (?a2 - ?lo) / (?hi - ?lo) * ?B"
      using B by (rule mult_right_mono)
    with 3 a1 a2 n1 n2 show ?thesis
      by (simp add: computeStructuralBonus_def not_le)
  qed
qed

text \<open>
  Claim C5. Whenever every material selected for pillars, beams and floor is in the
  catalogue, the memoised \<open>structuralBonus\<close> is the piecewise reference function of the
  average resistance: 0 when no level was scanned or the average is at most
  \<open>MIN_STRUCTURAL_RESISTANCE\<close>, \<open>MAX_STRUCTURAL_BONUS\<close> when the average is at least
  \<open>MAX_STRUCTURAL_RESISTANCE\<close>, and the linear interpolation in between.
\<close>

theorem structuralBonus_is_reference:
  assumes "selectionsCatalogued k buildingState structuralComponents"
  shows "structuralBonus k buildingState = Some (computeStructuralBonus k buildingState)"
proof -
  from structuralBonus_total [OF assms] obtain r where
    r: "structuralBonus k buildingState = Some r" by blast
  from structuralBonus_Some [OF r] r show ?thesis by simp
qed

theorem structuralBonus_is_reference_witness:
  "selectionsCatalogued exampleConstants exampleBuilding structuralComponents
   \<and> structuralBonus exampleConstants exampleBuilding
       = Some (computeStructuralBonus exampleConstants exampleBuilding)
   \<and> computeStructuralBonus exampleConstants exampleBuilding = 0.05"
proof -
  have a: "selectionsCatalogued exampleConstants exampleBuilding structuralComponents"
    by (simp add: selectionsCatalogued_def structuralComponents_def exampleBuilding_def
        isPerFloor_def exampleConstants_def exampleMaterials_def)
  have "computeStructuralBonus exampleConstants exampleBuilding = 0.05"
    by (simp add: computeStructuralBonus_def averageResistance_def levelCount_def
        scannedResistances_def resistanceOf_def exampleBuilding_def isPerFloor_def
        exampleConstants_def exampleMaterials_def)
  with structuralBonus_is_reference [OF a] a show ?thesis by simp
qed

section \<open>Properties of a wave\<close>

subsection \<open>Damage only lowers health\<close>

lemma all_components: "c \<in> set componentKeys"
  by (cases c) (simp_all add: componentKeys_def)

lemma applyDamage_Some:
  "applyDamage h c i d = Some h' \<longleftrightarrow>
     i < length (h c) \<and> h' = h(c := (h c)[i := max 0 (h c ! i - d)])"
  by (auto simp: applyDamage_def level_def)

lemma applyDamage_noHealing:
  assumes "noHealing h0 h" "0 \<le> d" "applyDamage h c i d = Some h'"
  shows "noHealing h0 h'"
proof -
  from assms(3) have i: "i < length (h c)"
    and h': "h' = h(c := (h c)[i := max 0 (h c ! i - d)])"
    by (simp_all add: applyDamage_Some)
  from assms(1) have len: "\<And>c. length (h c) = length (h0 c)"
    and rng: "\<And>c j. j < length (h0 c) \<Longrightarrow> 0 \<le> h c ! j \<and> h c ! j \<le> h0 c ! j"
    by (simp_all add: noHealing_def)
  have "0 \<le> h' c' ! j \<and> h' c' ! j \<le> h0 c' ! j" if j: "j < length (h0 c')" for c' j
  proof (cases "c' = c \<and> j = i")
    case True
    from rng [OF j] True assms(2) have "max 0 (h c ! i - d) \<le> h0 c ! i" by simp
    with True i h' show ?thesis by simp
  next
    case False
    with h' have "h' c' ! j = h c' ! j" by (auto simp: nth_list_update)
    with rng [OF j] show ?thesis by simp
  qed
  moreover from h' len have "length (h' c') = length (h0 c')" for c' by simp
  ultimately show ?thesis by (simp add: noHealing_def)
qed

lemma levelDamage_nonneg:
  assumes "bonus \<le> 1" "index < len"
  shows "0 \<le> levelDamage d e bonus len r index"
proof -
  from assms(2) have "real index / (real len * 2) \<le> 1 / 2" by simp
  then have q: "0 \<le> 1.2 - real index / (real len * 2)" by simp
  have m: "0 \<le> max 0 (e - r)" by simp
  from assms(1) have b: "0 \<le> 1 - bonus" by simp
  show ?thesis
    unfolding levelDamage_def Let_def
    using q m b by (auto intro!: mult_nonneg_nonneg)
qed

lemma forEachLevel_noHealing:
  assumes "noHealing h0 h" "bonus \<le> 1" "index + length ms = length (b c)"
    "forEachLevel k b d e bonus c ms index h = Some h'"
  shows "noHealing h0 h'"
  using assms
proof (induction ms arbitrary: index h)
  case Nil
  then show ?case by simp
next
  case (Cons m ms)
  from Cons.prems(4) have "\<exists>(material :: Material) h1.
      applyDamage h c index
        (levelDamage d e bonus (length (b c)) (resistance material) index) = Some h1
      \<and> forEachLevel k b d e bonus c ms (Suc index) h1 = Some h'"
    by (auto simp: bind_eq_Some_conv Let_def)
  then obtain material :: Material and h1 where
    step: "applyDamage h c index
             (levelDamage d e bonus (length (b c)) (resistance material) index) = Some h1"
    and rest: "forEachLevel k b d e bonus c ms (Suc index) h1 = Some h'"
    by blast
  from Cons.prems(3) have "index < length (b c)" by simp
  from levelDamage_nonneg [OF Cons.prems(2) this]
  have "noHealing h0 h1" using applyDamage_noHealing [OF Cons.prems(1) _ step] by blast
  from Cons.IH [OF this Cons.prems(2) _ rest] Cons.prems(3) show ?case by simp
qed

lemma forEachComponent_noHealing:
  assumes "noHealing h0 h" "bonus \<le> 1"
    "forEachComponent k b d e bonus cs h = Some h'"
  shows "noHealing h0 h'"
  using assms
proof (induction cs arbitrary: h)
  case Nil
  then show ?case by simp
next
  case (Cons c cs)
  show ?case
  proof (cases "c \<in> set defenseComponents")
    case True
    with Cons.prems(3) have "forEachComponent k b d e bonus cs h = Some h'" by simp
    from Cons.IH [OF Cons.prems(1,2) this] show ?thesis .
  next
    case False
    with Cons.prems(3) obtain h1 where
      one: "forEachLevel k b d e bonus c (b c) 0 h = Some h1" and
      rest: "forEachComponent k b d e bonus cs h1 = Some h'"
      by (auto simp: bind_eq_Some_conv)
    from forEachLevel_noHealing [OF Cons.prems(1,2) _ one] have "noHealing h0 h1" by simp
    from Cons.IH [OF this Cons.prems(2) rest] show ?thesis .
  qed
qed

lemma lightningFloors_noHealing:
  assumes "noHealing h0 h" "bonus \<le> 1" "0 \<le> e"
    "lightningFloors e bonus offs h = Some h'"
  shows "noHealing h0 h'"
  using assms
proof (induction offs arbitrary: h)
  case Nil
  then show ?case by simp
next
  case (Cons i offs)
  let ?fi = "int (length (h Beams)) - 1 - int i"
  define fd where "fd = e * (1 / (real i * 1.5 + 1)) * (1 - bonus)"
  show ?case
  proof (cases "?fi < 0")
    case True
    with Cons.prems(1,4) show ?thesis by (simp add: Let_def)
  next
    case False
    from Cons.prems(2,3) have fd: "0 \<le> fd"
      unfolding fd_def by (intro mult_nonneg_nonneg) simp_all
    from False Cons.prems(4) obtain h1 h2 h3 h4 h5 where
      s1: "applyDamage h Beams (nat ?fi) (fd / 1.25) = Some h1" and
      s2: "applyDamage h1 Walls (nat ?fi) (fd / 1.5) = Some h2" and
      s3: "applyDamage h2 Glass (nat ?fi) (fd / 2) = Some h3" and
      s4: "applyDamage h3 Pillars (nat ?fi) (fd / 1.2) = Some h4" and
      s5: "applyDamage h4 Floor (nat ?fi) (fd / 1.8) = Some h5" and
      rest: "lightningFloors e bonus offs h5 = Some h'"
      by (auto simp: bind_eq_Some_conv Let_def fd_def)
    from fd have d: "0 \<le> fd / 1.25" "0 \<le> fd / 1.5" "0 \<le> fd / 2" "0 \<le> fd / 1.2"
      "0 \<le> fd / 1.8" by simp_all
    from applyDamage_noHealing [OF Cons.prems(1) d(1) s1] have "noHealing h0 h1" .
    from applyDamage_noHealing [OF this d(2) s2] have "noHealing h0 h2" .
    from applyDamage_noHealing [OF this d(3) s3] have "noHealing h0 h3" .
    from applyDamage_noHealing [OF this d(4) s4] have "noHealing h0 h4" .
    from applyDamage_noHealing [OF this d(5) s5] have "noHealing h0 h5" .
    from Cons.IH [OF this Cons.prems(2,3) rest] show ?thesis .
  qed
qed

lemma lightningWave_noHealing:
  assumes "noHealing h0 h" "bonus \<le> 1"
    "lightningWave k b bonus p h = Some h'"
  shows "noHealing h0 h'"
proof -
  from assms(3) obtain spda :: Material where
    spda: "materialAt k b LightningRod 0 = Some spda" and
    body: "(if resistance spda < p then
             do { h1 \<leftarrow> applyDamage h LightningRod 0 ((p - resistance spda) * 2);
                  h2 \<leftarrow> applyDamage h1 Roof 0 (max 0 (p - resistance spda) * 1.2 * (1 - bonus));
                  lightningFloors (max 0 (p - resistance spda)) bonus [0, 1, 2] h2 }
           else Some h) = Some h'"
    by (auto simp: lightningWave_def bind_eq_Some_conv Let_def)
  show ?thesis
  proof (cases "resistance spda < p")
    case False
    with body assms(1) show ?thesis by simp
  next
    case True
    with body obtain h1 h2 where
      s1: "applyDamage h LightningRod 0 ((p - resistance spda) * 2) = Some h1" and
      s2: "applyDamage h1 Roof 0 (max 0 (p - resistance spda) * 1.2 * (1 - bonus)) = Some h2" and
      rest: "lightningFloors (max 0 (p - resistance spda)) bonus [0, 1, 2] h2 = Some h'"
      by (auto simp: bind_eq_Some_conv)
    from True have d1: "0 \<le> (p - resistance spda) * 2" by simp
    from assms(2) have d2: "0 \<le> max 0 (p - resistance spda) * 1.2 * (1 - bonus)"
      by (intro mult_nonneg_nonneg) simp_all
    from applyDamage_noHealing [OF assms(1) d1 s1] have "noHealing h0 h1" .
    from applyDamage_noHealing [OF this d2 s2] have "noHealing h0 h2" .
    from lightningFloors_noHealing [OF this assms(2) _ rest] show ?thesis by simp
  qed
qed

lemma waveHealth_noHealing:
  assumes "noHealing h0 h" "bonus \<le> 1"
    "waveHealth k b h bonus d w = Some h'"
  shows "noHealing h0 h'"
proof (cases "d = LightningStorm")
  case True
  with assms(3) obtain p :: real where "lightningWave k b bonus p h = Some h'"
    by (auto simp: waveHealth_def bind_eq_Some_conv Let_def)
  from lightningWave_noHealing [OF assms(1,2) this] show ?thesis .
next
  case False
  with assms(3) obtain e :: real where "forEachComponent k b d e bonus componentKeys h = Some h'"
    by (auto simp: waveHealth_def uniformWave_def bind_eq_Some_conv Let_def)
  from forEachComponent_noHealing [OF assms(1,2) this] show ?thesis .
qed

subsection \<open>What a loop leaves alone\<close>

lemma applyDamage_frame:
  "applyDamage h c i d = Some h' \<Longrightarrow> c' \<noteq> c \<Longrightarrow> h' c' = h c'"
  by (simp add: applyDamage_Some)

lemma applyDamage_length:
  "applyDamage h c i d = Some h' \<Longrightarrow> length (h' c') = length (h c')"
  by (auto simp: applyDamage_Some)

lemma forEachLevel_frame:
  "forEachLevel k b d e bonus c ms index h = Some h' \<Longrightarrow> c' \<noteq> c \<Longrightarrow> h' c' = h c'"
proof (induction ms arbitrary: index h)
  case Nil
  then show ?case by simp
next
  case (Cons m ms)
  from Cons.prems(1) obtain material :: Material and h1 where
    step: "applyDamage h c index
             (levelDamage d e bonus (length (b c)) (resistance material) index) = Some h1"
    and rest: "forEachLevel k b d e bonus c ms (Suc index) h1 = Some h'"
    by (auto simp: bind_eq_Some_conv Let_def)
  from Cons.IH [OF rest Cons.prems(2)] applyDamage_frame [OF step Cons.prems(2)]
  show ?case by simp
qed

lemma forEachComponent_frame:
  "forEachComponent k b d e bonus cs h = Some h' \<Longrightarrow>
     c' \<in> set defenseComponents \<or> c' \<notin> set cs \<Longrightarrow> h' c' = h c'"
proof (induction cs arbitrary: h)
  case Nil
  then show ?case by simp
next
  case (Cons c cs)
  show ?case
  proof (cases "c \<in> set defenseComponents")
    case True
    with Cons.prems(1) have rest: "forEachComponent k b d e bonus cs h = Some h'" by simp
    from Cons.prems(2) have "c' \<in> set defenseComponents \<or> c' \<notin> set cs" by auto
    from Cons.IH [OF rest this] show ?thesis .
  next
    case False
    with Cons.prems(1) obtain h1 where
      one: "forEachLevel k b d e bonus c (b c) 0 h = Some h1" and
      rest: "forEachComponent k b d e bonus cs h1 = Some h'"
      by (auto simp: bind_eq_Some_conv)
    from Cons.prems(2) False have ne: "c' \<noteq> c" and
      c': "c' \<in> set defenseComponents \<or> c' \<notin> set cs" by auto
    from Cons.IH [OF rest c'] forEachLevel_frame [OF one ne] show ?thesis by simp
  qed
qed

lemma lightningFloors_frame:
  assumes "lightningFloors e bonus offs h = Some h'"
    and "c' \<notin> set [Beams, Walls, Glass, Pillars, Floor]"
  shows "h' c' = h c'"
  using assms
proof (induction offs arbitrary: h)
  case Nil
  then show ?case by simp
next
  case (Cons i offs)
  let ?fi = "int (length (h Beams)) - 1 - int i"
  define fd where "fd = e * (1 / (real i * 1.5 + 1)) * (1 - bonus)"
  show ?case
  proof (cases "?fi < 0")
    case True
    with Cons.prems(1) show ?thesis by (simp add: Let_def)
  next
    case False
    from False Cons.prems(1) obtain h1 h2 h3 h4 h5 where
      s1: "applyDamage h Beams (nat ?fi) (fd / 1.25) = Some h1" and
      s2: "applyDamage h1 Walls (nat ?fi) (fd / 1.5) = Some h2" and
      s3: "applyDamage h2 Glass (nat ?fi) (fd / 2) = Some h3" and
      s4: "applyDamage h3 Pillars (nat ?fi) (fd / 1.2) = Some h4" and
      s5: "applyDamage h4 Floor (nat ?fi) (fd / 1.8) = Some h5" and
      rest: "lightningFloors e bonus offs h5 = Some h'"
      by (auto simp: bind_eq_Some_conv Let_def fd_def)
    from Cons.prems(2) have ne: "c' \<noteq> Beams" "c' \<noteq> Walls" "c' \<noteq> Glass"
      "c' \<noteq> Pillars" "c' \<noteq> Floor" by auto
    from applyDamage_frame [OF s1 ne(1)] applyDamage_frame [OF s2 ne(2)]
      applyDamage_frame [OF s3 ne(3)] applyDamage_frame [OF s4 ne(4)]
      applyDamage_frame [OF s5 ne(5)] Cons.IH [OF rest Cons.prems(2)]
    show ?thesis by simp
  qed
qed

subsection \<open>Runs that do not fault\<close>

lemma lightningFloors_total:
  assumes "\<forall>c \<in> set [Walls, Glass, Pillars, Floor]. length (h Beams) \<le> length (h c)"
  shows "\<exists>h'. lightningFloors e bonus offs h = Some h'"
  using assms
proof (induction offs arbitrary: h)
  case Nil
  then show ?case by simp
next
  case (Cons i offs)
  let ?fi = "int (length (h Beams)) - 1 - int i"
  define fd where "fd = e * (1 / (real i * 1.5 + 1)) * (1 - bonus)"
  show ?case
  proof (cases "?fi < 0")
    case True
    then show ?thesis by (simp add: Let_def)
  next
    case False
    then have fi: "nat ?fi < length (h Beams)" by linarith
    with Cons.prems have lens: "nat ?fi < length (h Walls)" "nat ?fi < length (h Glass)"
      "nat ?fi < length (h Pillars)" "nat ?fi < length (h Floor)"
      by (simp_all add: less_le_trans)
    obtain h1 where s1: "applyDamage h Beams (nat ?fi) (fd / 1.25) = Some h1"
      using fi by (simp add: applyDamage_Some)
    obtain h2 where s2: "applyDamage h1 Walls (nat ?fi) (fd / 1.5) = Some h2"
      using lens(1) applyDamage_length [OF s1, of Walls] by (simp add: applyDamage_Some)
    obtain h3 where s3: "applyDamage h2 Glass (nat ?fi) (fd / 2) = Some h3"
      using lens(2) applyDamage_length [OF s1, of Glass] applyDamage_length [OF s2, of Glass]
      by (simp add: applyDamage_Some)
    obtain h4 where s4: "applyDamage h3 Pillars (nat ?fi) (fd / 1.2) = Some h4"
      using lens(3) applyDamage_length [OF s1, of Pillars] applyDamage_length [OF s2, of Pillars]
        applyDamage_length [OF s3, of Pillars]
      by (simp add: applyDamage_Some)
    obtain h5 where s5: "applyDamage h4 Floor (nat ?fi) (fd / 1.8) = Some h5"
      using lens(4) applyDamage_length [OF s1, of Floor] applyDamage_length [OF s2, of Floor]
        applyDamage_length [OF s3, of Floor] applyDamage_length [OF s4, of Floor]
      by (simp add: applyDamage_Some)
    have len5: "length (h5 c) = length (h c)" for c
      using applyDamage_length [OF s1, of c] applyDamage_length [OF s2, of c]
        applyDamage_length [OF s3, of c] applyDamage_length [OF s4, of c]
        applyDamage_length [OF s5, of c] by simp
    from Cons.prems have
      "\<forall>c \<in> set [Walls, Glass, Pillars, Floor]. length (h5 Beams) \<le> length (h5 c)"
      by (simp add: len5)
    from Cons.IH [OF this] obtain h' where "lightningFloors e bonus offs h5 = Some h'" by blast
    with False s1 s2 s3 s4 s5 show ?thesis
      by (simp add: Let_def fd_def)
  qed
qed

subsection \<open>The health of each level after the uniform loops\<close>

lemma forEachLevel_result:
  assumes "\<forall>m \<in> set ms. COMPONENT_CONFIG k c m \<noteq> None"
    and "index + length ms \<le> length (h c)"
  shows "\<exists>h'. forEachLevel k b d e bonus c ms index h = Some h'
           \<and> length (h' c) = length (h c)
           \<and> (\<forall>i < length (h c). h' c ! i =
                (if index \<le> i \<and> i < index + length ms
                 then max 0 (h c ! i - levelDamage d e bonus (length (b c))
                                          (resistanceOf k c (ms ! (i - index))) i)
                 else h c ! i))"
  using assms
proof (induction ms arbitrary: index h)
  case Nil
  then show ?case by simp
next
  case (Cons m ms)
  from Cons.prems(1) obtain material where look: "COMPONENT_CONFIG k c m = Some material"
    by auto
  define dmg where "dmg = levelDamage d e bonus (length (b c)) (resistance material) index"
  define h1 where "h1 = h(c := (h c)[index := max 0 (h c ! index - dmg)])"
  from Cons.prems(2) have step: "applyDamage h c index dmg = Some h1"
    by (simp add: applyDamage_Some h1_def)
  from Cons.prems have "\<forall>m \<in> set ms. COMPONENT_CONFIG k c m \<noteq> None"
    and "Suc index + length ms \<le> length (h1 c)"
    by (simp_all add: h1_def)
  from Cons.IH [of "Suc index" h1, OF this] obtain h' where
    run: "forEachLevel k b d e bonus c ms (Suc index) h1 = Some h'" and
    len: "length (h' c) = length (h1 c)" and
    pt: "\<And>i. i < length (h1 c) \<Longrightarrow> h' c ! i =
           (if Suc index \<le> i \<and> i < Suc index + length ms
            then max 0 (h1 c ! i - levelDamage d e bonus (length (b c))
                                      (resistanceOf k c (ms ! (i - Suc index))) i)
            else h1 c ! i)"
    by blast
  from look step run have "forEachLevel k b d e bonus c (m # ms) index h = Some h'"
    by (simp add: dmg_def)
  moreover from len have "length (h' c) = length (h c)" by (simp add: h1_def)
  moreover have "h' c ! i =
      (if index \<le> i \<and> i < index + length (m # ms)
       then max 0 (h c ! i - levelDamage d e bonus (length (b c))
                                (resistanceOf k c ((m # ms) ! (i - index))) i)
       else h c ! i)" if i: "i < length (h c)" for i
  proof (cases "i = index")
    case True
    with pt [of i] i look show ?thesis
      by (simp add: h1_def dmg_def resistanceOf_def)
  next
    case False
    then have "(m # ms) ! (i - index) = ms ! (i - Suc index)" if "index \<le> i"
      using that by (simp add: nth_Cons')
    with False pt [of i] i show ?thesis
      by (auto simp: h1_def)
  qed
  ultimately show ?case by blast
qed

lemma intensityMultiplier_wave:
  "waveNumber \<in> {1, 2, 3} \<Longrightarrow> intensityMultiplier waveNumber = Some (waveMultiplier waveNumber)"
  by (auto simp: intensityMultiplier_def waveMultiplier_def waveIntensities_def level_def)

lemma defenseResistance_matching:
  assumes "disasterId \<noteq> LightningStorm"
  shows "defenseResistance k b disasterId =
           map_option resistance (materialAt k b (matchingDefense disasterId) 0)"
  using assms by (cases disasterId) (simp_all add: defenseResistance_def matchingDefense_def)

lemma levelDamage_positional:
  "levelDamage d e bonus len r index =
     max 0 (e - r) * positionalModifier d index len * (1 - bonus)"
  by (cases d) (simp_all add: levelDamage_def positionalModifier_def Let_def)

lemma distinct_componentKeys: "distinct componentKeys"
  by (simp add: componentKeys_def)

lemma forEachComponent_result:
  assumes "distinct cs"
    and "\<forall>c \<in> set cs. c \<notin> set defenseComponents \<longrightarrow>
           length (b c) \<le> length (h c) \<and> (\<forall>m \<in> set (b c). COMPONENT_CONFIG k c m \<noteq> None)"
  shows "\<exists>h'. forEachComponent k b d e bonus cs h = Some h'
           \<and> (\<forall>c \<in> set cs. c \<notin> set defenseComponents \<longrightarrow>
                (\<forall>i < length (b c). h' c ! i =
                   max 0 (h c ! i - levelDamage d e bonus (length (b c))
                                      (resistanceOf k c (b c ! i)) i)))"
  using assms
proof (induction cs arbitrary: h)
  case Nil
  then show ?case by simp
next
  case (Cons c cs)
  from Cons.prems(1) have dist: "distinct cs" and fresh: "c \<notin> set cs" by simp_all
  show ?case
  proof (cases "c \<in> set defenseComponents")
    case True
    from Cons.prems(2) have
      "\<forall>c \<in> set cs. c \<notin> set defenseComponents \<longrightarrow>
         length (b c) \<le> length (h c) \<and> (\<forall>m \<in> set (b c). COMPONENT_CONFIG k c m \<noteq> None)"
      by simp
    from Cons.IH [OF dist this] True show ?thesis by auto
  next
    case False
    with Cons.prems(2) have cat: "\<forall>m \<in> set (b c). COMPONENT_CONFIG k c m \<noteq> None"
      and len: "length (b c) \<le> length (h c)" by simp_all
    from forEachLevel_result [where k = k and c = c and ms = "b c" and index = 0 and h = h
        and b = b and d = d and e = e and bonus = bonus] cat len
    obtain h1 where
      one: "forEachLevel k b d e bonus c (b c) 0 h = Some h1" and
      pt1: "\<And>i. i < length (h c) \<Longrightarrow> h1 c ! i =
              (if i < length (b c)
               then max 0 (h c ! i - levelDamage d e bonus (length (b c))
                                       (resistanceOf k c (b c ! i)) i)
               else h c ! i)"
      by auto
    have same: "h1 c' = h c'" if "c' \<noteq> c" for c'
      using forEachLevel_frame [OF one that] .
    have "length (b c') \<le> length (h1 c') \<and> (\<forall>m \<in> set (b c'). COMPONENT_CONFIG k c' m \<noteq> None)"
      if c': "c' \<in> set cs" "c' \<notin> set defenseComponents" for c'
    proof -
      from c'(1) fresh have "c' \<noteq> c" by auto
      from same [OF this] Cons.prems(2) c' show ?thesis by simp
    qed
    then have
      "\<forall>c' \<in> set cs. c' \<notin> set defenseComponents \<longrightarrow>
         length (b c') \<le> length (h1 c') \<and> (\<forall>m \<in> set (b c'). COMPONENT_CONFIG k c' m \<noteq> None)"
      by blast
    from Cons.IH [OF dist this] obtain h' where
      rest: "forEachComponent k b d e bonus cs h1 = Some h'" and
      pt: "\<And>c' i. c' \<in> set cs \<Longrightarrow> c' \<notin> set defenseComponents \<Longrightarrow> i < length (b c') \<Longrightarrow>
             h' c' ! i = max 0 (h1 c' ! i - levelDamage d e bonus (length (b c'))
                                             (resistanceOf k c' (b c' ! i)) i)"
      by blast
    from forEachComponent_frame [OF rest, of c] fresh have keep: "h' c = h1 c" by simp
    from False one rest have run: "forEachComponent k b d e bonus (c # cs) h = Some h'"
      by simp
    have "h' c' ! i = max 0 (h c' ! i - levelDamage d e bonus (length (b c'))
                                          (resistanceOf k c' (b c' ! i)) i)"
      if c': "c' \<in> set (c # cs)" "c' \<notin> set defenseComponents" and i: "i < length (b c')"
      for c' i
    proof (cases "c' = c")
      case True
      from i len True have "i < length (h c)" by simp
      from pt1 [OF this] i True keep show ?thesis by simp
    next
      case False
      with c' have "c' \<in> set cs" by simp
      from pt [OF this c'(2) i] same [OF False] show ?thesis by simp
    qed
    with run show ?thesis by blast
  qed
qed

lemma uniformWave_pointwise:
  assumes d: "disasterId \<noteq> LightningStorm"
    and w: "waveNumber \<in> {1, 2, 3}"
    and def: "materialAt k b (matchingDefense disasterId) 0 = Some defence"
    and shape: "uniformShape k b h"
  shows "\<exists>newHealth. waveHealth k b h bonus disasterId waveNumber = Some newHealth
           \<and> (\<forall>c i. c \<notin> set defenseComponents \<longrightarrow> i < length (b c) \<longrightarrow>
                newHealth c ! i =
                  max 0 (h c ! i
                    - max 0 (max 0 (disaster_power (DISASTER_CONFIG k disasterId)
                                      * waveMultiplier waveNumber - resistance defence)
                             - resistanceOf k c (b c ! i))
                      * positionalModifier disasterId i (length (b c)) * (1 - bonus)))"
proof -
  define e where "e = max 0 (disaster_power (DISASTER_CONFIG k disasterId)
                               * waveMultiplier waveNumber - resistance defence)"
  from shape have
    "\<forall>c \<in> set componentKeys. c \<notin> set defenseComponents \<longrightarrow>
       length (b c) \<le> length (h c) \<and> (\<forall>m \<in> set (b c). COMPONENT_CONFIG k c m \<noteq> None)"
    by (simp add: uniformShape_def)
  from forEachComponent_result [OF distinct_componentKeys this, of disasterId e bonus]
  obtain newHealth where
    run: "forEachComponent k b disasterId e bonus componentKeys h = Some newHealth" and
    pt: "\<And>c i. c \<notin> set defenseComponents \<Longrightarrow> i < length (b c) \<Longrightarrow>
           newHealth c ! i = max 0 (h c ! i - levelDamage disasterId e bonus (length (b c))
                                                (resistanceOf k c (b c ! i)) i)"
    using all_components by blast
  from d def run intensityMultiplier_wave [OF w]
  have "waveHealth k b h bonus disasterId waveNumber = Some newHealth"
    by (simp add: waveHealth_def uniformWave_def defenseResistance_matching e_def)
  with pt show ?thesis
    by (auto simp: levelDamage_positional e_def)
qed

lemma uniformWave_frame:
  assumes "disasterId \<noteq> LightningStorm"
    and "waveHealth k b h bonus disasterId waveNumber = Some newHealth"
    and "c \<in> set defenseComponents"
  shows "newHealth c = h c"
proof -
  from assms(1,2) obtain e :: real where
    "forEachComponent k b disasterId e bonus componentKeys h = Some newHealth"
    by (auto simp: waveHealth_def uniformWave_def bind_eq_Some_conv Let_def)
  from forEachComponent_frame [OF this] assms(3) show ?thesis by blast
qed

subsection \<open>The two outcomes of a lightning storm\<close>

lemma lightning_absorbed:
  assumes w: "waveNumber \<in> {1, 2, 3}"
    and rod: "materialAt k b LightningRod 0 = Some spda"
    and ge: "disaster_power (DISASTER_CONFIG k LightningStorm) * waveMultiplier waveNumber
               \<le> resistance spda"
  shows "waveHealth k b h bonus LightningStorm waveNumber = Some h"
  using rod ge intensityMultiplier_wave [OF w]
  by (simp add: waveHealth_def lightningWave_def)

lemma lightning_overwhelmed:
  assumes w: "waveNumber \<in> {1, 2, 3}"
    and rod: "materialAt k b LightningRod 0 = Some spda"
    and lt: "resistance spda < p"
    and p: "p = disaster_power (DISASTER_CONFIG k LightningStorm) * waveMultiplier waveNumber"
    and shape: "lightningShape h"
  shows "\<exists>newHealth. waveHealth k b h bonus LightningStorm waveNumber = Some newHealth
           \<and> newHealth LightningRod ! 0 = max 0 (h LightningRod ! 0 - (p - resistance spda) * 2)
           \<and> newHealth Roof ! 0 = max 0 (h Roof ! 0 - max 0 (p - resistance spda) * 1.2 * (1 - bonus))"
proof -
  define h1 where
    "h1 = h(LightningRod := (h LightningRod)
              [0 := max 0 (h LightningRod ! 0 - (p - resistance spda) * 2)])"
  define h2 where
    "h2 = h1(Roof := (h1 Roof)
               [0 := max 0 (h1 Roof ! 0 - max 0 (p - resistance spda) * 1.2 * (1 - bonus))])"
  from shape have rodlen: "0 < length (h LightningRod)" and rooflen: "0 < length (h Roof)"
    and floors: "\<forall>c \<in> set [Walls, Glass, Pillars, Floor]. length (h Beams) \<le> length (h c)"
    by (simp_all add: lightningShape_def)
  from rodlen have s1: "applyDamage h LightningRod 0 ((p - resistance spda) * 2) = Some h1"
    by (simp add: applyDamage_Some h1_def)
  from rooflen have
    s2: "applyDamage h1 Roof 0 (max 0 (p - resistance spda) * 1.2 * (1 - bonus)) = Some h2"
    by (simp add: applyDamage_Some h1_def h2_def)
  from floors have
    "\<forall>c \<in> set [Walls, Glass, Pillars, Floor]. length (h2 Beams) \<le> length (h2 c)"
    by (simp add: h1_def h2_def)
  from lightningFloors_total [OF this] obtain newHealth where
    fl: "lightningFloors (max 0 (p - resistance spda)) bonus [0, 1, 2] h2 = Some newHealth"
    by blast
  from rod lt s1 s2 fl intensityMultiplier_wave [OF w] p
  have run: "waveHealth k b h bonus LightningStorm waveNumber = Some newHealth"
    by (simp add: waveHealth_def lightningWave_def)
  from lightningFloors_frame [OF fl, of LightningRod] rodlen
  have "newHealth LightningRod ! 0 = max 0 (h LightningRod ! 0 - (p - resistance spda) * 2)"
    by (simp add: h1_def h2_def)
  moreover from lightningFloors_frame [OF fl, of Roof] rooflen
  have "newHealth Roof ! 0
          = max 0 (h Roof ! 0 - max 0 (p - resistance spda) * 1.2 * (1 - bonus))"
    by (simp add: h1_def h2_def)
  ultimately show ?thesis using run by blast
qed

subsection \<open>Mean health and range\<close>

lemma foldl_plus_sum_list: "foldl (+) a xs = a + sum_list (xs :: real list)"
  by (induction xs arbitrary: a) simp_all

lemma classify_mean:
  assumes "allHealthValues newHealth \<noteq> []"
  shows "classify newHealth =
     (let mean = sum_list (allHealthValues newHealth) / real (length (allHealthValues newHealth))
      in if mean > 75 then MinimalDamage
         else if mean > 50 then SignificantDamage
         else if mean > 20 then SeverelyCompromised
         else TotalCollapse)"
  using assms by (simp add: classify_def foldl_plus_sum_list Let_def)

lemma allHealthValues_sum:
  "sum_list (allHealthValues h) =
     sum_list (h Pillars) + sum_list (h Beams) + sum_list (h Walls) + sum_list (h Glass)
     + sum_list (h Floor) + sum_list (h Roof) + sum_list (h LightningRod)
     + sum_list (h WindDampers) + sum_list (h TsunamiBarriers) + sum_list (h SeismicDampers)"
  by (simp add: allHealthValues_def componentKeys_def)

lemma allHealthValues_length:
  "length (allHealthValues h) =
     length (h Pillars) + length (h Beams) + length (h Walls) + length (h Glass)
     + length (h Floor) + length (h Roof) + length (h LightningRod)
     + length (h WindDampers) + length (h TsunamiBarriers) + length (h SeismicDampers)"
  by (simp add: allHealthValues_def componentKeys_def)

lemma noHealing_refl:
  assumes "healthInRange h"
  shows "noHealing h h"
proof -
  have "0 \<le> h c ! i" if "i < length (h c)" for c i
  proof -
    from that have "h c ! i \<in> set (h c)" by simp
    with assms all_components [of c] show ?thesis
      by (auto simp: healthInRange_def)
  qed
  then show ?thesis by (simp add: noHealing_def)
qed

lemma healthInRange_nth:
  assumes "healthInRange h" "i < length (h c)"
  shows "h c ! i \<le> 100"
proof -
  from assms(2) have "h c ! i \<in> set (h c)" by simp
  with assms(1) all_components [of c] show ?thesis
    by (auto simp: healthInRange_def)
qed

subsection \<open>The example catalogue at work\<close>

lemma example_uniformShape: "uniformShape exampleConstants exampleBuilding (fullHealth v)"
  by (simp add: uniformShape_def componentKeys_def defenseComponents_def exampleBuilding_def
      isPerFloor_def fullHealth_def exampleConstants_def exampleMaterials_def)

lemma example_defence:
  "d \<noteq> LightningStorm \<Longrightarrow>
   materialAt exampleConstants exampleBuilding (matchingDefense d) 0
     = Some \<lparr>cost = 200, resistance = 20\<rparr>"
  by (cases d)
    (simp_all add: materialAt_def matchingDefense_def exampleBuilding_def isPerFloor_def
      exampleConstants_def exampleMaterials_def level_def)

lemma example_healthInRange: "0 \<le> v \<Longrightarrow> v \<le> 100 \<Longrightarrow> healthInRange (fullHealth v)"
  by (simp add: healthInRange_def componentKeys_def fullHealth_def isPerFloor_def)

lemma strong_rod:
  "materialAt exampleConstants strongBuilding LightningRod 0
     = Some \<lparr>cost = 400, resistance = 60\<rparr>"
  by (simp add: materialAt_def strongBuilding_def isPerFloor_def exampleConstants_def
      exampleMaterials_def level_def)

lemmas example_run_defs =
  waveHealth_def uniformWave_def intensityMultiplier_def waveIntensities_def level_def
  defenseResistance_def materialAt_def componentKeys_def defenseComponents_def
  applyDamage_def levelDamage_def strongBuilding_def isPerFloor_def
  exampleConstants_def exampleMaterials_def

text \<open>
  A hurricane on the strong building: in wave 3 the effective power is 40, which the
  strong ground floor and roof resist and which costs every upper floor 20 points; in
  wave 1 the dampers absorb everything.
\<close>

lemma worn_run_A:
  "\<exists>newHealth.
     waveHealth exampleConstants strongBuilding wornHealthA 0 Hurricane 3 = Some newHealth
     \<and> newHealth Pillars = [40, 40] \<and> newHealth Beams = [100, 80]
     \<and> newHealth Walls = [100, 80] \<and> newHealth Glass = [70, 70]
     \<and> newHealth Floor = [100, 80] \<and> newHealth Roof = [85]
     \<and> newHealth LightningRod = [70] \<and> newHealth WindDampers = [70]
     \<and> newHealth TsunamiBarriers = [70] \<and> newHealth SeismicDampers = [70]"
  by (simp add: example_run_defs wornHealthA_def)

lemma worn_run_B:
  "\<exists>newHealth.
     waveHealth exampleConstants strongBuilding wornHealthB 0 Hurricane 3 = Some newHealth
     \<and> newHealth Pillars = [100, 80] \<and> newHealth Beams = [20, 20]
     \<and> newHealth Walls = [50, 50] \<and> newHealth Glass = [30, 30]
     \<and> newHealth Floor = [60, 60] \<and> newHealth Roof = [50]
     \<and> newHealth LightningRod = [50] \<and> newHealth WindDampers = [50]
     \<and> newHealth TsunamiBarriers = [50] \<and> newHealth SeismicDampers = [50]"
  by (simp add: example_run_defs wornHealthB_def)

lemma worn_run_first:
  "\<exists>newHealth.
     waveHealth exampleConstants strongBuilding wornHealthA 0 Hurricane 1 = Some newHealth
     \<and> newHealth Pillars = [40, 60] \<and> newHealth Beams = [100, 100]
     \<and> newHealth Walls = [100, 100] \<and> newHealth Glass = [70, 90]
     \<and> newHealth Floor = [100, 100] \<and> newHealth Roof = [85]
     \<and> newHealth LightningRod = [70] \<and> newHealth WindDampers = [70]
     \<and> newHealth TsunamiBarriers = [70] \<and> newHealth SeismicDampers = [70]"
  by (simp add: example_run_defs wornHealthA_def)

section \<open>The claims\<close>

text \<open>
  Claim C1. For an earthquake, a hurricane or a tsunami, in wave 1, 2 or 3, on a building
  whose selected materials are catalogued and whose health table has a value for every
  level of the building, the wave yields a health table, and every level \<open>i\<close> of every
  component that is not a defence system ends at \<open>max 0 (health - damage)\<close> where
  \<open>damage\<close> is \<open>max 0 (effectivePower - resistance of the level's material)\<close>, times the
  positional modifier of the disaster (tsunami \<open>max 0 (1.5 - i / length)\<close>, earthquake
  \<open>1.2 - i / (length * 2)\<close>, hurricane none), times \<open>1 - bonus\<close>, and
  \<open>effectivePower\<close> is \<open>max 0 (power * multiplier - resistance of the matching defence)\<close>.
\<close>

theorem uniform_wave_damage:
  assumes "disasterId \<in> {Earthquake, Hurricane, Tsunami}"
    and "waveNumber \<in> {1, 2, 3}"
    and "materialAt k buildingState (matchingDefense disasterId) 0 = Some defence"
    and "uniformShape k buildingState componentHealth"
  shows "\<exists>newHealth.
           waveHealth k buildingState componentHealth bonus disasterId waveNumber = Some newHealth
           \<and> (\<forall>c i. c \<notin> set defenseComponents \<longrightarrow> i < length (buildingState c) \<longrightarrow>
                newHealth c ! i =
                  max 0 (componentHealth c ! i
                    - max 0 (max 0 (disaster_power (DISASTER_CONFIG k disasterId)
                                      * waveMultiplier waveNumber - resistance defence)
                             - resistanceOf k c (buildingState c ! i))
                      * positionalModifier disasterId i (length (buildingState c))
                      * (1 - bonus)))"
proof -
  from assms(1) have "disasterId \<noteq> LightningStorm" by auto
  from uniformWave_pointwise [OF this assms(2,3,4)] show ?thesis .
qed

theorem uniform_wave_damage_witness:
  "Tsunami \<in> {Earthquake, Hurricane, Tsunami} \<and> (2::nat) \<in> {1, 2, 3}
   \<and> materialAt exampleConstants exampleBuilding (matchingDefense Tsunami) 0
       = Some \<lparr>cost = 200, resistance = 20\<rparr>
   \<and> uniformShape exampleConstants exampleBuilding (fullHealth 100)
   \<and> (\<exists>newHealth.
         waveHealth exampleConstants exampleBuilding (fullHealth 100) 0.25 Tsunami 2
           = Some newHealth
         \<and> newHealth Walls ! 1 = 70 \<and> newHealth Walls ! 0 = 43.75 \<and> newHealth Roof ! 0 = 55)"
proof -
  have a: "Tsunami \<in> {Earthquake, Hurricane, Tsunami}" and b: "(2::nat) \<in> {1, 2, 3}" by simp_all
  have c: "materialAt exampleConstants exampleBuilding (matchingDefense Tsunami) 0
             = Some \<lparr>cost = 200, resistance = 20\<rparr>"
    by (simp add: materialAt_def matchingDefense_def exampleBuilding_def isPerFloor_def
        exampleConstants_def exampleMaterials_def level_def)
  have d: "uniformShape exampleConstants exampleBuilding (fullHealth 100)"
    by (simp add: uniformShape_def componentKeys_def defenseComponents_def exampleBuilding_def
        isPerFloor_def fullHealth_def exampleConstants_def exampleMaterials_def)
  from uniform_wave_damage [OF a b c d, of "0.25"] obtain newHealth where
    run: "waveHealth exampleConstants exampleBuilding (fullHealth 100) 0.25 Tsunami 2
            = Some newHealth"
    and pt: "\<And>c i. c \<notin> set defenseComponents \<Longrightarrow> i < length (exampleBuilding c) \<Longrightarrow>
      newHealth c ! i =
        max 0 (fullHealth 100 c ! i
          - max 0 (max 0 (disaster_power (DISASTER_CONFIG exampleConstants Tsunami)
                            * waveMultiplier 2 - resistance \<lparr>cost = 200, resistance = 20\<rparr>)
                   - resistanceOf exampleConstants c (exampleBuilding c ! i))
            * positionalModifier Tsunami i (length (exampleBuilding c))
            * (1 - 0.25))"
    by blast
  have "newHealth Walls ! 1 = 70"
    using pt [of Walls 1]
    by (simp add: defenseComponents_def exampleBuilding_def isPerFloor_def fullHealth_def
        exampleConstants_def exampleMaterials_def waveMultiplier_def resistanceOf_def
        positionalModifier_def)
  moreover have "newHealth Walls ! 0 = 43.75"
    using pt [of Walls 0]
    by (simp add: defenseComponents_def exampleBuilding_def isPerFloor_def fullHealth_def
        exampleConstants_def exampleMaterials_def waveMultiplier_def resistanceOf_def
        positionalModifier_def)
  moreover have "newHealth Roof ! 0 = 55"
    using pt [of Roof 0]
    by (simp add: defenseComponents_def exampleBuilding_def isPerFloor_def fullHealth_def
        exampleConstants_def exampleMaterials_def waveMultiplier_def resistanceOf_def
        positionalModifier_def)
  ultimately show ?thesis using a b c d run by blast
qed

text \<open>
  Claim C2. In a lightning storm whose power exceeds the resistance of the lightning rod,
  the rod ends at \<open>max 0 (rodHealth - (disasterPower - rodResistance) * 2)\<close>, a value in
  which the structural bonus does not occur, and the roof ends at
  \<open>max 0 (roofHealth - effectivePower * 1.2 * (1 - bonus))\<close>; this holds for every value
  of the bonus.
\<close>

theorem lightning_rod_and_roof:
  assumes "waveNumber \<in> {1, 2, 3}"
    and "materialAt k buildingState LightningRod 0 = Some spda"
    and "disasterPower =
           disaster_power (DISASTER_CONFIG k LightningStorm) * waveMultiplier waveNumber"
    and "resistance spda < disasterPower"
    and "lightningShape componentHealth"
  shows "\<exists>newHealth.
           waveHealth k buildingState componentHealth bonus LightningStorm waveNumber
             = Some newHealth
           \<and> newHealth LightningRod ! 0 =
               max 0 (componentHealth LightningRod ! 0 - (disasterPower - resistance spda) * 2)
           \<and> newHealth Roof ! 0 =
               max 0 (componentHealth Roof ! 0
                        - max 0 (disasterPower - resistance spda) * 1.2 * (1 - bonus))"
  using lightning_overwhelmed [OF assms(1,2,4,3,5)] .

theorem lightning_rod_and_roof_witness:
  "(3::nat) \<in> {1, 2, 3}
   \<and> materialAt exampleConstants exampleBuilding LightningRod 0
       = Some \<lparr>cost = 200, resistance = 20\<rparr>
   \<and> (50::real) = disaster_power (DISASTER_CONFIG exampleConstants LightningStorm)
                     * waveMultiplier 3
   \<and> resistance \<lparr>cost = 200, resistance = 20\<rparr> < (50::real)
   \<and> lightningShape (fullHealth 100)
   \<and> (\<exists>newHealth.
         waveHealth exampleConstants exampleBuilding (fullHealth 100) 0.25 LightningStorm 3
           = Some newHealth
         \<and> newHealth LightningRod ! 0 = 40 \<and> newHealth Roof ! 0 = 73)"
proof -
  have a: "(3::nat) \<in> {1, 2, 3}" by simp
  have b: "materialAt exampleConstants exampleBuilding LightningRod 0
             = Some \<lparr>cost = 200, resistance = 20\<rparr>"
    by (simp add: materialAt_def exampleBuilding_def isPerFloor_def exampleConstants_def
        exampleMaterials_def level_def)
  have c: "(50::real) = disaster_power (DISASTER_CONFIG exampleConstants LightningStorm)
                          * waveMultiplier 3"
    by (simp add: exampleConstants_def waveMultiplier_def)
  have d: "resistance \<lparr>cost = 200, resistance = 20\<rparr> < (50::real)" by simp
  have e: "lightningShape (fullHealth 100)"
    by (simp add: lightningShape_def fullHealth_def isPerFloor_def)
  from lightning_rod_and_roof [OF a b c d e, of "0.25"] a b c d e show ?thesis
    by (simp add: fullHealth_def isPerFloor_def)
qed

text \<open>
  Claim C3. With a bonus between 0 and \<open>MAX_STRUCTURAL_BONUS\<close>, that constant being at
  most 1, and every input health value between 0 and 100, every health table that a
  wave produces has the shape of the input, all its values are between 0 and 100, and
  none exceeds the input value at the same place.
\<close>

theorem wave_never_heals:
  assumes "0 \<le> bonus" and "bonus \<le> MAX_STRUCTURAL_BONUS k"
    and "MAX_STRUCTURAL_BONUS k \<le> 1"
    and "healthInRange componentHealth"
    and "waveHealth k buildingState componentHealth bonus disasterId waveNumber = Some newHealth"
  shows "\<forall>c. length (newHealth c) = length (componentHealth c)
           \<and> (\<forall>i < length (componentHealth c).
                 0 \<le> newHealth c ! i \<and> newHealth c ! i \<le> 100
                 \<and> newHealth c ! i \<le> componentHealth c ! i)"
proof -
  from assms(2,3) have b1: "bonus \<le> 1" by simp
  from waveHealth_noHealing [OF noHealing_refl [OF assms(4)] b1 assms(5)]
  have nh: "noHealing componentHealth newHealth" .
  have "0 \<le> newHealth c ! i \<and> newHealth c ! i \<le> 100
          \<and> newHealth c ! i \<le> componentHealth c ! i"
    if i: "i < length (componentHealth c)" for c i
  proof -
    from nh i have "0 \<le> newHealth c ! i" "newHealth c ! i \<le> componentHealth c ! i"
      by (simp_all add: noHealing_def)
    with healthInRange_nth [OF assms(4) i] show ?thesis by simp
  qed
  moreover from nh have "length (newHealth c) = length (componentHealth c)" for c
    by (simp add: noHealing_def)
  ultimately show ?thesis by blast
qed

theorem wave_never_heals_witness:
  "(0::real) \<le> 0.25 \<and> 0.25 \<le> MAX_STRUCTURAL_BONUS exampleConstants
   \<and> MAX_STRUCTURAL_BONUS exampleConstants \<le> 1
   \<and> healthInRange (fullHealth 100)
   \<and> (\<exists>newHealth.
         waveHealth exampleConstants exampleBuilding (fullHealth 100) 0.25 Earthquake 3
           = Some newHealth
         \<and> (\<forall>c. length (newHealth c) = length (fullHealth 100 c)
               \<and> (\<forall>i < length (fullHealth 100 c).
                     0 \<le> newHealth c ! i \<and> newHealth c ! i \<le> 100
                     \<and> newHealth c ! i \<le> fullHealth 100 c ! i)))"
proof -
  have a: "(0::real) \<le> 0.25" by simp
  have b: "0.25 \<le> MAX_STRUCTURAL_BONUS exampleConstants"
    and c: "MAX_STRUCTURAL_BONUS exampleConstants \<le> 1"
    by (simp_all add: exampleConstants_def)
  have d: "healthInRange (fullHealth 100)" by (rule example_healthInRange) simp_all
  from uniformWave_pointwise [where disasterId = Earthquake and waveNumber = 3
      and h = "fullHealth 100" and bonus = "0.25", OF _ _ example_defence example_uniformShape]
  obtain newHealth where
    run: "waveHealth exampleConstants exampleBuilding (fullHealth 100) 0.25 Earthquake 3
            = Some newHealth"
    by auto
  from wave_never_heals [OF a b c d run] a b c d run show ?thesis by blast
qed

text \<open>
  Claim C4. In a lightning storm whose power does not exceed the resistance of the
  lightning rod, the health table after the wave is the table before it: the rod, the
  roof and every floor keep their health.
\<close>

theorem lightning_absorbed_no_damage:
  assumes "waveNumber \<in> {1, 2, 3}"
    and "materialAt k buildingState LightningRod 0 = Some spda"
    and "disaster_power (DISASTER_CONFIG k LightningStorm) * waveMultiplier waveNumber
           \<le> resistance spda"
  shows "waveHealth k buildingState componentHealth bonus LightningStorm waveNumber
           = Some componentHealth"
  using lightning_absorbed [OF assms] .

theorem lightning_absorbed_no_damage_witness:
  "(3::nat) \<in> {1, 2, 3}
   \<and> materialAt exampleConstants strongBuilding LightningRod 0
       = Some \<lparr>cost = 400, resistance = 60\<rparr>
   \<and> disaster_power (DISASTER_CONFIG exampleConstants LightningStorm) * waveMultiplier 3
       \<le> resistance \<lparr>cost = 400, resistance = 60\<rparr>
   \<and> waveHealth exampleConstants strongBuilding (fullHealth 80) 0.3 LightningStorm 3
       = Some (fullHealth 80)"
proof -
  have a: "(3::nat) \<in> {1, 2, 3}" by simp
  have c: "disaster_power (DISASTER_CONFIG exampleConstants LightningStorm) * waveMultiplier 3
             \<le> resistance \<lparr>cost = 400, resistance = 60\<rparr>"
    by (simp add: exampleConstants_def waveMultiplier_def)
  from lightning_absorbed_no_damage [OF a strong_rod c] a strong_rod c show ?thesis by blast
qed

text \<open>
  Claim C10. An earthquake, hurricane or tsunami wave leaves the health of the four
  defence systems (lightning rod, wind dampers, tsunami barriers, seismic dampers) as
  it was, the one whose resistance absorbed the disaster included.
\<close>

theorem uniform_wave_keeps_defenses:
  assumes "disasterId \<in> {Earthquake, Hurricane, Tsunami}"
    and "waveHealth k buildingState componentHealth bonus disasterId waveNumber = Some newHealth"
  shows "newHealth LightningRod = componentHealth LightningRod
         \<and> newHealth WindDampers = componentHealth WindDampers
         \<and> newHealth TsunamiBarriers = componentHealth TsunamiBarriers
         \<and> newHealth SeismicDampers = componentHealth SeismicDampers"
proof -
  from assms(1) have d: "disasterId \<noteq> LightningStorm" by auto
  show ?thesis
    using uniformWave_frame [OF d assms(2)] by (simp add: defenseComponents_def)
qed

theorem uniform_wave_keeps_defenses_witness:
  "Hurricane \<in> {Earthquake, Hurricane, Tsunami}
   \<and> (\<exists>newHealth.
         waveHealth exampleConstants exampleBuilding (fullHealth 90) 0 Hurricane 3 = Some newHealth
         \<and> newHealth LightningRod = [90] \<and> newHealth WindDampers = [90]
         \<and> newHealth TsunamiBarriers = [90] \<and> newHealth SeismicDampers = [90]
         \<and> newHealth Roof = [30])"
proof -
  have a: "Hurricane \<in> {Earthquake, Hurricane, Tsunami}" by simp
  from uniformWave_pointwise [where disasterId = Hurricane and waveNumber = 3
      and h = "fullHealth 90" and bonus = 0, OF _ _ example_defence example_uniformShape]
  obtain newHealth where
    run: "waveHealth exampleConstants exampleBuilding (fullHealth 90) 0 Hurricane 3
            = Some newHealth"
    and pt: "\<And>c i. c \<notin> set defenseComponents \<Longrightarrow> i < length (exampleBuilding c) \<Longrightarrow>
      newHealth c ! i =
        max 0 (fullHealth 90 c ! i
          - max 0 (max 0 (disaster_power (DISASTER_CONFIG exampleConstants Hurricane)
                            * waveMultiplier 3 - resistance \<lparr>cost = 200, resistance = 20\<rparr>)
                   - resistanceOf exampleConstants c (exampleBuilding c ! i))
            * positionalModifier Hurricane i (length (exampleBuilding c))
            * (1 - 0))"
    by auto
  have "noHealing (fullHealth 90) (fullHealth 90)"
    by (rule noHealing_refl, rule example_healthInRange) simp_all
  from waveHealth_noHealing [OF this _ run]
  have "length (newHealth Roof) = length (fullHealth 90 Roof)"
    by (simp add: noHealing_def)
  then have len: "length (newHealth Roof) = 1" by (simp add: fullHealth_def isPerFloor_def)
  have "newHealth Roof ! 0 = 30"
    using pt [of Roof 0]
    by (simp add: defenseComponents_def exampleBuilding_def isPerFloor_def fullHealth_def
        exampleConstants_def exampleMaterials_def waveMultiplier_def resistanceOf_def
        positionalModifier_def)
  with len have roof: "newHealth Roof = [30]"
    by (cases "newHealth Roof") simp_all
  from uniform_wave_keeps_defenses [OF a run] a run roof show ?thesis
    by (simp add: fullHealth_def isPerFloor_def)
qed

text \<open>
  Claim C6. With a non-negative \<open>MAX_STRUCTURAL_BONUS\<close>, the structural bonus of every
  building lies between 0 and \<open>MAX_STRUCTURAL_BONUS\<close>, and of two buildings that both
  have at least one scanned level the one with the larger average resistance over
  pillars, beams and floor has the larger or equal bonus.
\<close>

theorem structuralBonus_range_monotone:
  assumes "0 \<le> MAX_STRUCTURAL_BONUS k"
    and "structuralBonus k b1 = Some r1"
    and "structuralBonus k b2 = Some r2"
  shows "0 \<le> r1 \<and> r1 \<le> MAX_STRUCTURAL_BONUS k \<and> 0 \<le> r2 \<and> r2 \<le> MAX_STRUCTURAL_BONUS k
         \<and> (levelCount k b1 \<noteq> 0 \<and> levelCount k b2 \<noteq> 0
              \<and> averageResistance k b1 \<le> averageResistance k b2 \<longrightarrow> r1 \<le> r2)"
proof -
  from structuralBonus_Some [OF assms(2)] structuralBonus_Some [OF assms(3)]
  have r: "r1 = computeStructuralBonus k b1" "r2 = computeStructuralBonus k b2" by simp_all
  from computeStructuralBonus_range [OF assms(1), of b1]
    computeStructuralBonus_range [OF assms(1), of b2]
    computeStructuralBonus_mono [OF assms(1), of b1 b2] r
  show ?thesis by blast
qed

theorem structuralBonus_range_monotone_witness:
  "0 \<le> MAX_STRUCTURAL_BONUS exampleConstants
   \<and> structuralBonus exampleConstants exampleBuilding = Some 0.05
   \<and> structuralBonus exampleConstants strongBuilding = Some 0.3
   \<and> levelCount exampleConstants exampleBuilding \<noteq> 0
   \<and> levelCount exampleConstants strongBuilding \<noteq> 0
   \<and> averageResistance exampleConstants exampleBuilding
       \<le> averageResistance exampleConstants strongBuilding
   \<and> (0::real) \<le> 0.05 \<and> 0.05 \<le> MAX_STRUCTURAL_BONUS exampleConstants
   \<and> (0::real) \<le> 0.3 \<and> 0.3 \<le> MAX_STRUCTURAL_BONUS exampleConstants
   \<and> (0.05::real) \<le> 0.3"
proof -
  have a: "0 \<le> MAX_STRUCTURAL_BONUS exampleConstants" by (simp add: exampleConstants_def)
  have b: "structuralBonus exampleConstants exampleBuilding = Some 0.05"
    by (simp add: structuralBonus_def structuralComponents_def exampleBuilding_def
        isPerFloor_def exampleConstants_def exampleMaterials_def)
  have c: "structuralBonus exampleConstants strongBuilding = Some 0.3"
    by (simp add: structuralBonus_def structuralComponents_def strongBuilding_def
        isPerFloor_def exampleConstants_def exampleMaterials_def)
  have d: "levelCount exampleConstants exampleBuilding \<noteq> 0"
    "levelCount exampleConstants strongBuilding \<noteq> 0"
    by (simp_all add: levelCount_def scannedResistances_def exampleBuilding_def
        strongBuilding_def isPerFloor_def)
  have e: "averageResistance exampleConstants exampleBuilding
             \<le> averageResistance exampleConstants strongBuilding"
    by (simp add: averageResistance_def levelCount_def scannedResistances_def resistanceOf_def
        exampleBuilding_def strongBuilding_def isPerFloor_def exampleConstants_def
        exampleMaterials_def)
  from structuralBonus_range_monotone [OF a b c] a b c d e show ?thesis by simp
qed

text \<open>
  Claim C7. Waves 1 and 2 lead to the repair phase and leave the result message alone.
  Wave 3 leads to the results, with the message chosen from the arithmetic mean of the
  health values of all levels of all ten components (their sum divided by their
  number) by strict comparisons: above 75 minimal damage, above 50 significant damage,
  above 20 severely compromised, otherwise total collapse. A mean of exactly 75 gives
  the second message and a mean of exactly 50 the third.
\<close>

theorem result_classification:
  assumes "runSimulationWave k buildingState componentHealth bonus prevState disasterId waveNumber
             = Some (newHealth, st)"
    and "healthSum =
           sum_list (newHealth Pillars) + sum_list (newHealth Beams)
           + sum_list (newHealth Walls) + sum_list (newHealth Glass)
           + sum_list (newHealth Floor) + sum_list (newHealth Roof)
           + sum_list (newHealth LightningRod) + sum_list (newHealth WindDampers)
           + sum_list (newHealth TsunamiBarriers) + sum_list (newHealth SeismicDampers)"
    and "levels =
           length (newHealth Pillars) + length (newHealth Beams)
           + length (newHealth Walls) + length (newHealth Glass)
           + length (newHealth Floor) + length (newHealth Roof)
           + length (newHealth LightningRod) + length (newHealth WindDampers)
           + length (newHealth TsunamiBarriers) + length (newHealth SeismicDampers)"
    and "levels \<noteq> 0"
    and "mean = healthSum / real levels"
  shows "(waveNumber < 3 \<longrightarrow>
            phase st = repair waveNumber \<and> resultMessage st = resultMessage prevState)
         \<and> (waveNumber = 3 \<longrightarrow>
              phase st = results
              \<and> resultMessage st =
                  Some (if mean > 75 then MinimalDamage
                        else if mean > 50 then SignificantDamage
                        else if mean > 20 then SeverelyCompromised
                        else TotalCollapse))
         \<and> (waveNumber = 3 \<and> mean = 75 \<longrightarrow> resultMessage st = Some SignificantDamage)
         \<and> (waveNumber = 3 \<and> mean = 50 \<longrightarrow> resultMessage st = Some SeverelyCompromised)"
proof -
  from assms(1) have
    st: "st = (if waveNumber < 3 then prevState\<lparr>phase := repair waveNumber\<rparr>
               else prevState\<lparr>phase := results, resultMessage := Some (classify newHealth)\<rparr>)"
    by (auto simp: runSimulationWave_def bind_eq_Some_conv split: if_splits)
  from assms(2) have healthSum: "healthSum = sum_list (allHealthValues newHealth)"
    by (simp only: allHealthValues_sum)
  from assms(3) have levels: "levels = length (allHealthValues newHealth)"
    by (simp only: allHealthValues_length)
  from levels assms(4) have ne: "allHealthValues newHealth \<noteq> []" by auto
  from classify_mean [OF ne] healthSum levels assms(5) have
    cl: "classify newHealth =
           (if mean > 75 then MinimalDamage
            else if mean > 50 then SignificantDamage
            else if mean > 20 then SeverelyCompromised
            else TotalCollapse)"
    by (simp add: Let_def)
  from st cl show ?thesis by simp
qed

theorem result_classification_witness:
  "(\<exists>newHealth st.
      runSimulationWave exampleConstants strongBuilding wornHealthA 0
        \<lparr>phase = wave 1, activeDisaster = Some Hurricane, resultMessage = None\<rparr>
        Hurricane 1 = Some (newHealth, st)
      \<and> (1::nat) < 3 \<and> phase st = repair 1 \<and> resultMessage st = None)
   \<and> (\<exists>newHealth st.
        runSimulationWave exampleConstants strongBuilding wornHealthA 0
          \<lparr>phase = wave 3, activeDisaster = Some Hurricane, resultMessage = None\<rparr>
          Hurricane 3 = Some (newHealth, st)
        \<and> newHealth Pillars = [40, 40] \<and> newHealth Beams = [100, 80]
        \<and> newHealth Walls = [100, 80] \<and> newHealth Glass = [70, 70]
        \<and> newHealth Floor = [100, 80] \<and> newHealth Roof = [85]
        \<and> newHealth LightningRod = [70] \<and> newHealth WindDampers = [70]
        \<and> newHealth TsunamiBarriers = [70] \<and> newHealth SeismicDampers = [70]
        \<and> (75::real) = 1125 / real (15::nat)
        \<and> phase st = results \<and> resultMessage st = Some SignificantDamage)
   \<and> (\<exists>newHealth st.
        runSimulationWave exampleConstants strongBuilding wornHealthB 0
          \<lparr>phase = wave 3, activeDisaster = Some Hurricane, resultMessage = None\<rparr>
          Hurricane 3 = Some (newHealth, st)
        \<and> newHealth Pillars = [100, 80] \<and> newHealth Beams = [20, 20]
        \<and> newHealth Walls = [50, 50] \<and> newHealth Glass = [30, 30]
        \<and> newHealth Floor = [60, 60] \<and> newHealth Roof = [50]
        \<and> newHealth LightningRod = [50] \<and> newHealth WindDampers = [50]
        \<and> newHealth TsunamiBarriers = [50] \<and> newHealth SeismicDampers = [50]
        \<and> (50::real) = 750 / real (15::nat)
        \<and> phase st = results \<and> resultMessage st = Some SeverelyCompromised)"
proof -
  let ?prev = "\<lambda>n. \<lparr>phase = wave n, activeDisaster = Some Hurricane, resultMessage = None\<rparr>"
  have w1: "\<exists>newHealth st.
      runSimulationWave exampleConstants strongBuilding wornHealthA 0 (?prev 1) Hurricane 1
        = Some (newHealth, st)
      \<and> (1::nat) < 3 \<and> phase st = repair 1 \<and> resultMessage st = None"
  proof -
    from worn_run_first obtain newHealth where
      wave: "waveHealth exampleConstants strongBuilding wornHealthA 0 Hurricane 1
               = Some newHealth" and
      lists: "newHealth Pillars = [40, 60]" "newHealth Beams = [100, 100]"
        "newHealth Walls = [100, 100]" "newHealth Glass = [70, 90]"
        "newHealth Floor = [100, 100]" "newHealth Roof = [85]"
        "newHealth LightningRod = [70]" "newHealth WindDampers = [70]"
        "newHealth TsunamiBarriers = [70]" "newHealth SeismicDampers = [70]"
      by blast
    from wave have run:
      "runSimulationWave exampleConstants strongBuilding wornHealthA 0 (?prev 1) Hurricane 1
         = Some (newHealth, (?prev 1)\<lparr>phase := repair 1\<rparr>)"
      by (simp add: runSimulationWave_def)
    have "phase ((?prev 1)\<lparr>phase := repair 1\<rparr>) = repair 1
          \<and> resultMessage ((?prev 1)\<lparr>phase := repair 1\<rparr>) = resultMessage (?prev 1)"
      using result_classification [OF run refl refl _ refl] lists by simp
    with run show ?thesis by auto
  qed
  have w2: "\<exists>newHealth st.
      runSimulationWave exampleConstants strongBuilding wornHealthA 0 (?prev 3) Hurricane 3
        = Some (newHealth, st)
      \<and> newHealth Pillars = [40, 40] \<and> newHealth Beams = [100, 80]
      \<and> newHealth Walls = [100, 80] \<and> newHealth Glass = [70, 70]
      \<and> newHealth Floor = [100, 80] \<and> newHealth Roof = [85]
      \<and> newHealth LightningRod = [70] \<and> newHealth WindDampers = [70]
      \<and> newHealth TsunamiBarriers = [70] \<and> newHealth SeismicDampers = [70]
      \<and> (75::real) = 1125 / real (15::nat)
      \<and> phase st = results \<and> resultMessage st = Some SignificantDamage"
  proof -
    from worn_run_A obtain newHealth where
      wave: "waveHealth exampleConstants strongBuilding wornHealthA 0 Hurricane 3
               = Some newHealth" and
      lists: "newHealth Pillars = [40, 40]" "newHealth Beams = [100, 80]"
        "newHealth Walls = [100, 80]" "newHealth Glass = [70, 70]"
        "newHealth Floor = [100, 80]" "newHealth Roof = [85]"
        "newHealth LightningRod = [70]" "newHealth WindDampers = [70]"
        "newHealth TsunamiBarriers = [70]" "newHealth SeismicDampers = [70]"
      by blast
    define st where
      "st = (?prev 3)\<lparr>phase := results, resultMessage := Some (classify newHealth)\<rparr>"
    from wave have run:
      "runSimulationWave exampleConstants strongBuilding wornHealthA 0 (?prev 3) Hurricane 3
         = Some (newHealth, st)"
      by (simp add: runSimulationWave_def st_def)
    have total: "(1125::real) =
        sum_list (newHealth Pillars) + sum_list (newHealth Beams)
        + sum_list (newHealth Walls) + sum_list (newHealth Glass)
        + sum_list (newHealth Floor) + sum_list (newHealth Roof)
        + sum_list (newHealth LightningRod) + sum_list (newHealth WindDampers)
        + sum_list (newHealth TsunamiBarriers) + sum_list (newHealth SeismicDampers)"
      by (simp add: lists)
    have count: "(15::nat) =
        length (newHealth Pillars) + length (newHealth Beams)
        + length (newHealth Walls) + length (newHealth Glass)
        + length (newHealth Floor) + length (newHealth Roof)
        + length (newHealth LightningRod) + length (newHealth WindDampers)
        + length (newHealth TsunamiBarriers) + length (newHealth SeismicDampers)"
      by (simp add: lists)
    have ne: "(15::nat) \<noteq> 0" by simp
    have mean: "(75::real) = 1125 / real (15::nat)" by simp
    from result_classification [OF run total count ne mean]
    have "phase st = results \<and> resultMessage st = Some SignificantDamage" by simp
    with run lists mean show ?thesis by blast
  qed
  have w3: "\<exists>newHealth st.
      runSimulationWave exampleConstants strongBuilding wornHealthB 0 (?prev 3) Hurricane 3
        = Some (newHealth, st)
      \<and> newHealth Pillars = [100, 80] \<and> newHealth Beams = [20, 20]
      \<and> newHealth Walls = [50, 50] \<and> newHealth Glass = [30, 30]
      \<and> newHealth Floor = [60, 60] \<and> newHealth Roof = [50]
      \<and> newHealth LightningRod = [50] \<and> newHealth WindDampers = [50]
      \<and> newHealth TsunamiBarriers = [50] \<and> newHealth SeismicDampers = [50]
      \<and> (50::real) = 750 / real (15::nat)
      \<and> phase st = results \<and> resultMessage st = Some SeverelyCompromised"
  proof -
    from worn_run_B obtain newHealth where
      wave: "waveHealth exampleConstants strongBuilding wornHealthB 0 Hurricane 3
               = Some newHealth" and
      lists: "newHealth Pillars = [100, 80]" "newHealth Beams = [20, 20]"
        "newHealth Walls = [50, 50]" "newHealth Glass = [30, 30]"
        "newHealth Floor = [60, 60]" "newHealth Roof = [50]"
        "newHealth LightningRod = [50]" "newHealth WindDampers = [50]"
        "newHealth TsunamiBarriers = [50]" "newHealth SeismicDampers = [50]"
      by blast
    define st where
      "st = (?prev 3)\<lparr>phase := results, resultMessage := Some (classify newHealth)\<rparr>"
    from wave have run:
      "runSimulationWave exampleConstants strongBuilding wornHealthB 0 (?prev 3) Hurricane 3
         = Some (newHealth, st)"
      by (simp add: runSimulationWave_def st_def)
    have total: "(750::real) =
        sum_list (newHealth Pillars) + sum_list (newHealth Beams)
        + sum_list (newHealth Walls) + sum_list (newHealth Glass)
        + sum_list (newHealth Floor) + sum_list (newHealth Roof)
        + sum_list (newHealth LightningRod) + sum_list (newHealth WindDampers)
        + sum_list (newHealth TsunamiBarriers) + sum_list (newHealth SeismicDampers)"
      by (simp add: lists)
    have count: "(15::nat) =
        length (newHealth Pillars) + length (newHealth Beams)
        + length (newHealth Walls) + length (newHealth Glass)
        + length (newHealth Floor) + length (newHealth Roof)
        + length (newHealth LightningRod) + length (newHealth WindDampers)
        + length (newHealth TsunamiBarriers) + length (newHealth SeismicDampers)"
      by (simp add: lists)
    have ne: "(15::nat) \<noteq> 0" by simp
    have mean: "(50::real) = 750 / real (15::nat)" by simp
    from result_classification [OF run total count ne mean]
    have "phase st = results \<and> resultMessage st = Some SeverelyCompromised" by simp
    with run lists mean show ?thesis by blast
  qed
  from w1 w2 w3 show ?thesis by blast
qed

text \<open>
  Claim C8. A hurricane of power 100 in wave 1 (power 60 after the intensity 0.6),
  wind dampers of resistance 20, structural bonus 0: a glass level of material
  resistance 10 and health 100 ends at health 70.
\<close>

theorem hurricane_glass_example:
  assumes "disaster_power (DISASTER_CONFIG k Hurricane) = 100"
    and "materialAt k buildingState WindDampers 0 = Some dampers"
    and "resistance dampers = 20"
    and "i < length (buildingState Glass)"
    and "COMPONENT_CONFIG k Glass (buildingState Glass ! i) = Some glass"
    and "resistance glass = 10"
    and "componentHealth Glass ! i = 100"
    and "uniformShape k buildingState componentHealth"
  shows "\<exists>newHealth.
           waveHealth k buildingState componentHealth 0 Hurricane 1 = Some newHealth
           \<and> newHealth Glass ! i = 70"
proof -
  from assms(2) have def: "materialAt k buildingState (matchingDefense Hurricane) 0 = Some dampers"
    by (simp add: matchingDefense_def)
  from uniformWave_pointwise [where disasterId = Hurricane and waveNumber = 1 and bonus = 0,
      OF _ _ def assms(8)]
  obtain newHealth where
    run: "waveHealth k buildingState componentHealth 0 Hurricane 1 = Some newHealth" and
    pt: "\<And>c i. c \<notin> set defenseComponents \<Longrightarrow> i < length (buildingState c) \<Longrightarrow>
      newHealth c ! i =
        max 0 (componentHealth c ! i
          - max 0 (max 0 (disaster_power (DISASTER_CONFIG k Hurricane)
                            * waveMultiplier 1 - resistance dampers)
                   - resistanceOf k c (buildingState c ! i))
            * positionalModifier Hurricane i (length (buildingState c))
            * (1 - 0))"
    by auto
  from pt [of Glass i] assms(1,3,4,5,6,7) have "newHealth Glass ! i = 70"
    by (simp add: defenseComponents_def waveMultiplier_def resistanceOf_def
        positionalModifier_def)
  with run show ?thesis by blast
qed

theorem hurricane_glass_example_witness:
  "disaster_power (DISASTER_CONFIG exampleConstants Hurricane) = 100
   \<and> materialAt exampleConstants exampleBuilding WindDampers 0
       = Some \<lparr>cost = 200, resistance = 20\<rparr>
   \<and> resistance \<lparr>cost = 200, resistance = 20\<rparr> = (20::real)
   \<and> 0 < length (exampleBuilding Glass)
   \<and> COMPONENT_CONFIG exampleConstants Glass (exampleBuilding Glass ! 0)
       = Some \<lparr>cost = 100, resistance = 10\<rparr>
   \<and> resistance \<lparr>cost = 100, resistance = 10\<rparr> = (10::real)
   \<and> fullHealth 100 Glass ! 0 = 100
   \<and> uniformShape exampleConstants exampleBuilding (fullHealth 100)
   \<and> (\<exists>newHealth.
         waveHealth exampleConstants exampleBuilding (fullHealth 100) 0 Hurricane 1
           = Some newHealth
         \<and> newHealth Glass ! 0 = 70)"
proof -
  have a: "disaster_power (DISASTER_CONFIG exampleConstants Hurricane) = 100"
    by (simp add: exampleConstants_def)
  have b: "materialAt exampleConstants exampleBuilding WindDampers 0
             = Some \<lparr>cost = 200, resistance = 20\<rparr>"
    using example_defence [of Hurricane] by (simp add: matchingDefense_def)
  have c: "resistance \<lparr>cost = 200, resistance = 20\<rparr> = (20::real)" by simp
  have d: "0 < length (exampleBuilding Glass)"
    by (simp add: exampleBuilding_def isPerFloor_def)
  have e: "COMPONENT_CONFIG exampleConstants Glass (exampleBuilding Glass ! 0)
             = Some \<lparr>cost = 100, resistance = 10\<rparr>"
    by (simp add: exampleBuilding_def isPerFloor_def exampleConstants_def exampleMaterials_def)
  have f: "resistance \<lparr>cost = 100, resistance = 10\<rparr> = (10::real)" by simp
  have g: "fullHealth 100 Glass ! 0 = 100" by (simp add: fullHealth_def isPerFloor_def)
  from hurricane_glass_example [OF a b c d e f g example_uniformShape]
    a b c d e f g example_uniformShape [of 100]
  show ?thesis by blast
qed

text \<open>
  Claim C9. Repairing a level whose health is below 100 sets its health to 100, changes
  nothing else in the health table, and adds
  \<open>(100 - currentHealth) * (materialCost / 200)\<close> to the total cost, which is the price
  the control panel quotes; a material of cost 200 at health 40 costs 60 to repair.
\<close>

theorem repair_restores_and_charges:
  assumes "level (componentHealth componentId) levelIndex = Some currentHealth"
    and "currentHealth < 100"
    and "materialAt k buildingState componentId levelIndex = Some material"
  shows "\<exists>newHealth newCost.
           handleRepairComponent k buildingState (componentHealth, totalCost)
             componentId levelIndex = Some (newHealth, newCost)
           \<and> newHealth = componentHealth
                (componentId := (componentHealth componentId)[levelIndex := 100])
           \<and> newHealth componentId ! levelIndex = 100
           \<and> newCost - totalCost = (100 - currentHealth) * (cost material / 200)
           \<and> newCost - totalCost = quotedRepairCost material currentHealth
           \<and> (cost material = 200 \<and> currentHealth = 40 \<longrightarrow> newCost - totalCost = 60)"
proof -
  from assms(1) have l: "levelIndex < length (componentHealth componentId)"
    by (simp add: level_def split: if_splits)
  from assms l show ?thesis
    by (simp add: handleRepairComponent_def quotedRepairCost_def Let_def)
qed

theorem repair_restores_and_charges_witness:
  "level (fullHealth 40 Walls) 1 = Some 40 \<and> (40::real) < 100
   \<and> materialAt exampleConstants exampleBuilding Walls 1 = Some \<lparr>cost = 200, resistance = 20\<rparr>
   \<and> cost \<lparr>cost = 200, resistance = 20\<rparr> = (200::real)
   \<and> (\<exists>newHealth newCost.
         handleRepairComponent exampleConstants exampleBuilding (fullHealth 40, 1000) Walls 1
           = Some (newHealth, newCost)
         \<and> newHealth Walls = [40, 100] \<and> newCost - 1000 = 60)"
proof -
  have a: "level (fullHealth 40 Walls) 1 = Some 40"
    by (simp add: level_def fullHealth_def isPerFloor_def)
  have b: "(40::real) < 100" by simp
  have c: "materialAt exampleConstants exampleBuilding Walls 1
             = Some \<lparr>cost = 200, resistance = 20\<rparr>"
    by (simp add: materialAt_def exampleBuilding_def isPerFloor_def exampleConstants_def
        exampleMaterials_def level_def)
  from repair_restores_and_charges [where componentHealth = "fullHealth 40"
      and componentId = Walls and levelIndex = 1 and currentHealth = 40
      and k = exampleConstants and buildingState = exampleBuilding
      and material = "\<lparr>cost = 200, resistance = 20\<rparr>" and totalCost = 1000, OF a b c]
    a b c
  show ?thesis
    by (auto simp: fullHealth_def isPerFloor_def)
qed

end
